theory Spec2Isabelle
  imports Main "HOL-Library.Char_ord" "HOL-Library.List_Lexorder"
begin

section \<open>JavaScript values\<close>

text \<open>
  The view engine of \<^verbatim>\<open>index.js\<close> works on JSON documents and on the values that user
  functions emit. A value is one of JavaScript's: \<^verbatim>\<open>undefined\<close>, \<^verbatim>\<open>null\<close>, a boolean, a
  number, a string, an array, a plain object (its own properties in insertion order) or an
  \<^verbatim>\<open>Error\<close> instance with its own properties.

  A number is an IEEE double. The model holds the doubles that are integers, together with
  \<^verbatim>\<open>Infinity\<close>, \<^verbatim>\<open>-Infinity\<close> and \<^verbatim>\<open>NaN\<close>; fractions and the sign of zero are
  outside it. The sum and the product of two such numbers are integers again, and
  JavaScript returns the double nearest to them, of two equally near ones the one with the
  even mantissa: an integer below \<open>2^53\<close> in absolute value is returned as it is, a larger
  one loses its low bits, and one that rounds to \<open>2^1024\<close> or more is infinite.
\<close>

datatype number = Fin int | PosInf | NegInf | NaN

datatype jsval =
    JUndefined
  | JNull
  | JBool bool
  | JNum number
  | JStr string
  | JArr "jsval list"
  | JObj "(string \<times> jsval) list"
  | JError "(string \<times> jsval) list"

function low_bits :: "int \<Rightarrow> nat" where
  \<comment> \<open>how many low bits of a natural number do not fit into the 53 bits of a mantissa\<close>
  "low_bits m = (if m < 2 ^ 53 then 0 else Suc (low_bits (m div 2)))"
  by pat_completeness auto
termination
  by (relation "measure nat") auto

declare low_bits.simps [simp del]

definition round_mantissa :: "int \<Rightarrow> int" where
  \<comment> \<open>the nearest natural number whose low bits are zero\<close>
  "round_mantissa m =
     (let s = low_bits m; q = m div 2 ^ s; r = m mod 2 ^ s
      in (if 2 ^ s < 2 * r \<or> (2 * r = 2 ^ s \<and> odd q) then q + 1 else q) * 2 ^ s)"

definition round_double :: "int \<Rightarrow> number" where
  "round_double n =
     (let m = round_mantissa \<bar>n\<bar>
      in if 2 ^ 1024 \<le> m then (if n < 0 then NegInf else PosInf)
         else Fin (if n < 0 then - m else m))"

fun num_add :: "number \<Rightarrow> number \<Rightarrow> number" where
  "num_add (Fin a) (Fin b) = round_double (a + b)"
| "num_add NaN _ = NaN"
| "num_add _ NaN = NaN"
| "num_add PosInf NegInf = NaN"
| "num_add NegInf PosInf = NaN"
| "num_add PosInf _ = PosInf"
| "num_add _ PosInf = PosInf"
| "num_add NegInf _ = NegInf"
| "num_add _ NegInf = NegInf"

fun num_mul :: "number \<Rightarrow> number \<Rightarrow> number" where
  "num_mul (Fin a) (Fin b) = round_double (a * b)"
| "num_mul NaN _ = NaN"
| "num_mul _ NaN = NaN"
| "num_mul PosInf (Fin b) = (if b = 0 then NaN else if 0 < b then PosInf else NegInf)"
| "num_mul NegInf (Fin b) = (if b = 0 then NaN else if 0 < b then NegInf else PosInf)"
| "num_mul (Fin a) PosInf = (if a = 0 then NaN else if 0 < a then PosInf else NegInf)"
| "num_mul (Fin a) NegInf = (if a = 0 then NaN else if 0 < a then NegInf else PosInf)"
| "num_mul PosInf PosInf = PosInf"
| "num_mul NegInf NegInf = PosInf"
| "num_mul PosInf NegInf = NegInf"
| "num_mul NegInf PosInf = NegInf"

text \<open>\<^verbatim>\<open>Math.min(a, b)\<close> and \<^verbatim>\<open>Math.max(a, b)\<close> on numbers: \<^verbatim>\<open>NaN\<close> is contagious.\<close>

fun num_le :: "number \<Rightarrow> number \<Rightarrow> bool" where
  "num_le (Fin a) (Fin b) = (a \<le> b)"
| "num_le NegInf _ = True"
| "num_le _ PosInf = True"
| "num_le _ _ = False"

definition num_min :: "number \<Rightarrow> number \<Rightarrow> number" where
  "num_min a b = (if a = NaN \<or> b = NaN then NaN else if num_le a b then a else b)"

definition num_max :: "number \<Rightarrow> number \<Rightarrow> number" where
  "num_max a b = (if a = NaN \<or> b = NaN then NaN else if num_le a b then b else a)"

subsection \<open>Conversions\<close>

definition digit :: "nat \<Rightarrow> char" where
  "digit d = ''0123456789'' ! (d mod 10)"

function string_of_nat :: "nat \<Rightarrow> string" where
  "string_of_nat n = (if n < 10 then [digit n] else string_of_nat (n div 10) @ [digit n])"
  by pat_completeness auto
termination
  by (relation "measure id") auto

declare string_of_nat.simps [simp del]

definition string_of_int :: "int \<Rightarrow> string" where
  "string_of_int i = (if i < 0 then CHR ''-'' # string_of_nat (nat (- i)) else string_of_nat (nat i))"

fun string_of_number :: "number \<Rightarrow> string" where
  "string_of_number (Fin i) = string_of_int i"
| "string_of_number PosInf = ''Infinity''"
| "string_of_number NegInf = ''-Infinity''"
| "string_of_number NaN = ''NaN''"

fun join_comma :: "string list \<Rightarrow> string" where
  "join_comma [] = []"
| "join_comma [s] = s"
| "join_comma (s # t # ss) = s @ '','' @ join_comma (t # ss)"

definition get_field :: "jsval \<Rightarrow> string \<Rightarrow> jsval" where
  \<comment> \<open>\<^verbatim>\<open>v.name\<close> on a value that is neither \<^verbatim>\<open>null\<close> nor \<^verbatim>\<open>undefined\<close>\<close>
  "get_field v name =
     (case v of
        JObj fs \<Rightarrow> (case map_of fs name of Some x \<Rightarrow> x | None \<Rightarrow> JUndefined)
      | JError fs \<Rightarrow> (case map_of fs name of Some x \<Rightarrow> x | None \<Rightarrow> JUndefined)
      | _ \<Rightarrow> JUndefined)"

definition set_field :: "jsval \<Rightarrow> string \<Rightarrow> jsval \<Rightarrow> jsval" where
  \<comment> \<open>\<^verbatim>\<open>v.name = x\<close> on an object; the position of an existing property is kept\<close>
  "set_field v name x =
     (case v of
        JObj fs \<Rightarrow> JObj (if name \<in> fst ` set fs then map (\<lambda>(k, y). if k = name then (k, x) else (k, y)) fs
                        else fs @ [(name, x)])
      | JError fs \<Rightarrow> JError (if name \<in> fst ` set fs then map (\<lambda>(k, y). if k = name then (k, x) else (k, y)) fs
                        else fs @ [(name, x)])
      | _ \<Rightarrow> v)"

text \<open>
  \<^verbatim>\<open>String(v)\<close>: an array is its elements joined by commas, \<^verbatim>\<open>null\<close> and
  \<^verbatim>\<open>undefined\<close> elements giving the empty string; a plain object is
  \<^verbatim>\<open>[object Object]\<close>; an error is its name and message.
\<close>

fun to_string :: "jsval \<Rightarrow> string" where
  "to_string JUndefined = ''undefined''"
| "to_string JNull = ''null''"
| "to_string (JBool b) = (if b then ''true'' else ''false'')"
| "to_string (JNum n) = string_of_number n"
| "to_string (JStr s) = s"
| "to_string (JArr xs) =
     join_comma (map (\<lambda>v. if v = JNull \<or> v = JUndefined then [] else to_string v) xs)"
| "to_string (JObj fs) = ''[object Object]''"
| "to_string (JError fs) =
     (case (map_of fs ''name'', map_of fs ''message'') of
        (Some (JStr n), Some (JStr m)) \<Rightarrow> n @ '': '' @ m
      | (Some (JStr n), _) \<Rightarrow> n
      | (_, Some (JStr m)) \<Rightarrow> ''Error: '' @ m
      | _ \<Rightarrow> ''Error'')"

definition truthy :: "jsval \<Rightarrow> bool" where
  "truthy v = (v \<noteq> JUndefined \<and> v \<noteq> JNull \<and> v \<noteq> JBool False \<and> v \<noteq> JNum (Fin 0)
               \<and> v \<noteq> JNum NaN \<and> v \<noteq> JStr [])"

text \<open>
  \<^verbatim>\<open>Number(v)\<close>. A string, an array or an object is converted through its string; how
  JavaScript reads a number out of a string is a parameter, \<open>parse\<close>.
\<close>

definition to_number :: "(string \<Rightarrow> number) \<Rightarrow> jsval \<Rightarrow> number" where
  "to_number parse v =
     (case v of
        JUndefined \<Rightarrow> NaN
      | JNull \<Rightarrow> Fin 0
      | JBool b \<Rightarrow> (if b then Fin 1 else Fin 0)
      | JNum n \<Rightarrow> n
      | _ \<Rightarrow> parse (to_string v))"

text \<open>
  The operator \<^verbatim>\<open>a + b\<close>: when either side is a string, or an array or object (whose
  primitive value is its string), the two strings are concatenated; otherwise the two
  numbers are added.
\<close>

definition stringish :: "jsval \<Rightarrow> bool" where
  "stringish v = (case v of JStr _ \<Rightarrow> True | JArr _ \<Rightarrow> True | JObj _ \<Rightarrow> True | JError _ \<Rightarrow> True
                  | _ \<Rightarrow> False)"

definition js_add :: "jsval \<Rightarrow> jsval \<Rightarrow> jsval" where
  "js_add a b =
     (if stringish a \<or> stringish b then JStr (to_string a @ to_string b)
      else JNum (num_add (to_number (\<lambda>_. NaN) a) (to_number (\<lambda>_. NaN) b)))"

section \<open>The built-in reducers\<close>

text \<open>
  \<^verbatim>\<open>sum\<close> (index.js, line 739) folds \<^verbatim>\<open>a + b\<close> over the values from the left,
  starting at \<open>0\<close>; it is \<open>sum_js\<close> here, \<open>sum\<close> being HOL's.
\<close>

definition sum_js :: "jsval list \<Rightarrow> jsval" where
  "sum_js values = foldl js_add (JNum (Fin 0)) values"

text \<open>
  \<^verbatim>\<open>sumsqr\<close> (line 756), local to \<^verbatim>\<open>_stats\<close>: the sum of the squares, or an error
  object at the first value that is not a number.
\<close>

definition invalid_value :: jsval where
  "invalid_value = JError [(''name'', JStr ''invalid_value''),
     (''message'', JStr ''builtin _stats function requires map values to be numbers''),
     (''status'', JNum (Fin 500))]"

fun sumsqr_from :: "number \<Rightarrow> jsval list \<Rightarrow> jsval" where
  "sumsqr_from acc [] = JNum acc"
| "sumsqr_from acc (v # vs) =
     (case v of JNum n \<Rightarrow> sumsqr_from (num_add acc (num_mul n n)) vs | _ \<Rightarrow> invalid_value)"

definition sumsqr :: "jsval list \<Rightarrow> jsval" where
  "sumsqr values = sumsqr_from (Fin 0) values"

definition math_min :: "(string \<Rightarrow> number) \<Rightarrow> jsval list \<Rightarrow> number" where
  \<comment> \<open>\<^verbatim>\<open>Math.min.apply(null, values)\<close>: \<^verbatim>\<open>Infinity\<close> on no values\<close>
  "math_min parse values = foldl num_min PosInf (map (to_number parse) values)"

definition math_max :: "(string \<Rightarrow> number) \<Rightarrow> jsval list \<Rightarrow> number" where
  "math_max parse values = foldl num_max NegInf (map (to_number parse) values)"

definition builtin_sum :: "jsval \<Rightarrow> jsval list \<Rightarrow> jsval \<Rightarrow> jsval" where
  \<comment> \<open>\<^verbatim>\<open>"_sum": function (keys, values)\<close>, line 746\<close>
  "builtin_sum keys values rereduce = sum_js values"

definition builtin_count :: "jsval \<Rightarrow> jsval list \<Rightarrow> jsval \<Rightarrow> jsval" where
  \<comment> \<open>\<^verbatim>\<open>"_count": function (keys, values)\<close>, line 750: \<^verbatim>\<open>values.length\<close>\<close>
  "builtin_count keys values rereduce = JNum (Fin (int (length values)))"

text \<open>
  \<^verbatim>\<open>_stats\<close> (line 754). With \<^verbatim>\<open>rereduce\<close> the first value is taken as the result and
  every further value is merged into it; each merge recomputes \<^verbatim>\<open>sumsqr\<close> by calling
  the local function \<^verbatim>\<open>sumsqr\<close> on the pair of the two partial results.
\<close>

definition stats_merge :: "(string \<Rightarrow> number) \<Rightarrow> jsval \<Rightarrow> jsval \<Rightarrow> jsval" where
  "stats_merge parse result current =
     (let r1 = set_field result ''sum'' (js_add (get_field result ''sum'') (get_field current ''sum''));
          r2 = set_field r1 ''min'' (JNum (num_min (to_number parse (get_field r1 ''min''))
                                                  (to_number parse (get_field current ''min''))));
          r3 = set_field r2 ''max'' (JNum (num_max (to_number parse (get_field r2 ''max''))
                                                  (to_number parse (get_field current ''max''))));
          r4 = set_field r3 ''count'' (js_add (get_field r3 ''count'') (get_field current ''count''))
      in set_field r4 ''sumsqr'' (sumsqr [get_field r4 ''sumsqr'', get_field current ''sumsqr'']))"

definition builtin_stats :: "(string \<Rightarrow> number) \<Rightarrow> jsval \<Rightarrow> jsval list \<Rightarrow> jsval \<Rightarrow> jsval" where
  "builtin_stats parse keys values rereduce =
     (if truthy rereduce then
        (case values of [] \<Rightarrow> JUndefined | v # vs \<Rightarrow> foldl (stats_merge parse) v vs)
      else
        JObj [(''sum'', sum_js values),
              (''min'', JNum (math_min parse values)),
              (''max'', JNum (math_max parse values)),
              (''count'', JNum (Fin (int (length values)))),
              (''sumsqr'', sumsqr values)])"

section \<open>The libraries and user functions around the engine\<close>

text \<open>
  \<^verbatim>\<open>collate\<close>, \<^verbatim>\<open>normalizeKey\<close> and \<^verbatim>\<open>toIndexableString\<close> come from the package
  \<^verbatim>\<open>pouchdb-collate\<close>; \<^verbatim>\<open>evalFunc\<close> turns the source text of a user's map or reduce
  function into a function. None of them is code of \<^verbatim>\<open>index.js\<close>: they are parameters.
  \<open>evalMap src doc\<close> is the list of the \<^verbatim>\<open>emit(key, value)\<close> calls that the map
  function of source \<open>src\<close> makes on \<open>doc\<close>, in order; \<open>evalReduce src\<close> is the
  reduce function of source \<open>src\<close>. User code may throw: \<open>throws mapSrc reduceSrc doc\<close>
  is the value thrown while the updater compiles the two functions, maps \<open>doc\<close> and reduces
  its rows (lines 1128 to 1149), and \<open>None\<close> when they return.
\<close>

record env =
  collate :: "jsval \<Rightarrow> jsval \<Rightarrow> int"
  normalizeKey :: "jsval \<Rightarrow> jsval"
  toIndexableString :: "jsval \<Rightarrow> string"
  evalMap :: "string \<Rightarrow> jsval \<Rightarrow> (jsval \<times> jsval) list"
  evalReduce :: "string \<Rightarrow> jsval \<Rightarrow> jsval list \<Rightarrow> jsval \<Rightarrow> jsval"
  parseNumber :: "string \<Rightarrow> number"
  throws :: "string \<Rightarrow> string option \<Rightarrow> jsval \<Rightarrow> jsval option"

definition builtInReduce :: "env \<Rightarrow> string \<Rightarrow> (jsval \<Rightarrow> jsval list \<Rightarrow> jsval \<Rightarrow> jsval) option" where
  \<comment> \<open>the table \<^verbatim>\<open>builtInReduce\<close>, line 745\<close>
  "builtInReduce e name =
     (if name = ''_sum'' then Some builtin_sum
      else if name = ''_count'' then Some builtin_count
      else if name = ''_stats'' then Some (builtin_stats (parseNumber e))
      else None)"

definition reduceFun_of :: "env \<Rightarrow> string \<Rightarrow> jsval \<Rightarrow> jsval list \<Rightarrow> jsval \<Rightarrow> jsval" where
  \<comment> \<open>\<^verbatim>\<open>builtInReduce[src]\<close> when there is one, \<^verbatim>\<open>evalFunc(src, ...)\<close> otherwise\<close>
  "reduceFun_of e src = (case builtInReduce e src of Some f \<Rightarrow> f | None \<Rightarrow> evalReduce e src)"

section \<open>Query options and their validation\<close>

text \<open>
  The options object of a query. The code asks of \<^verbatim>\<open>startkey\<close>, \<^verbatim>\<open>endkey\<close>,
  \<^verbatim>\<open>key\<close> and \<^verbatim>\<open>keys\<close> whether they are \<^verbatim>\<open>undefined\<close>: one that is absent or
  \<^verbatim>\<open>undefined\<close> is \<open>None\<close>. \<open>descending\<close>, \<open>include_docs\<close>, \<open>group\<close> and
  \<open>group_level\<close> are read for their truth value only, \<open>skip\<close> is
  \<^verbatim>\<open>opts.skip || 0\<close>, and of \<open>reduce\<close> the code only asks whether it is \<^verbatim>\<open>false\<close>.

  Of \<^verbatim>\<open>limit\<close> the code asks whether the property is there (\<^verbatim>\<open>'limit' in opts\<close>) and
  whether it is a number (\<^verbatim>\<open>typeof opts.limit === 'number'\<close>). The property is absent,
  or it is there without a number (\<^verbatim>\<open>undefined\<close>; \<^verbatim>\<open>null\<close> behaves alike), or it is a
  natural number.
\<close>

datatype limit_option = Absent | Undefined | Limit nat

record opts =
  startkey :: "jsval option"
  endkey :: "jsval option"
  key :: "jsval option"
  keys :: "jsval list option"
  descending :: bool
  limit :: limit_option
  skip :: nat
  include_docs :: bool
  reduce :: "jsval option"
  group :: bool
  group_level :: bool
  stale :: "string option"

text \<open>
  \<^verbatim>\<open>new QueryParseError(message)\<close> (line 1664) is an object with the four properties that
  the constructor sets. It is no \<^verbatim>\<open>Error\<close> instance: line 1671 assigns
  \<^verbatim>\<open>QueryParseError.prototype__proto__\<close>, a property of the function, and leaves the
  prototype chain as it is. The \<^verbatim>\<open>toString\<close> of its prototype (line 1673) is not called
  by \<^verbatim>\<open>index.js\<close>.
\<close>

definition QueryParseError :: "string \<Rightarrow> jsval" where
  "QueryParseError message =
     JObj [(''status'', JNum (Fin 400)), (''name'', JStr ''query_parse_error''),
           (''message'', JStr message), (''error'', JBool True)]"

definition has_reduce :: "string option \<Rightarrow> bool" where
  \<comment> \<open>\<^verbatim>\<open>fun.reduce\<close> as a condition: a non-empty source\<close>
  "has_reduce r = (case r of Some src \<Rightarrow> src \<noteq> [] | None \<Rightarrow> False)"

definition inverted_range :: "env \<Rightarrow> opts \<Rightarrow> bool" where
  \<comment> \<open>lines 840 to 845: both bounds are set and, after the swap for \<^verbatim>\<open>descending\<close>, collate the wrong way\<close>
  "inverted_range e options =
     (let startk = (if descending options then endkey options else startkey options);
          endk = (if descending options then startkey options else endkey options)
      in case startk of
           Some s \<Rightarrow> (case endk of Some t \<Rightarrow> 0 < collate e s t | None \<Rightarrow> False)
         | None \<Rightarrow> False)"

definition checkQueryParseError :: "env \<Rightarrow> opts \<Rightarrow> string option \<Rightarrow> jsval option" where
  \<comment> \<open>line 839; \<open>fun_reduce\<close> is \<^verbatim>\<open>fun.reduce\<close>\<close>
  "checkQueryParseError e options fun_reduce =
     (if inverted_range e options
         then Some (QueryParseError
           (''No rows can match your key range, reverse your '' @
            ''start_key and end_key or set {descending : true}''))
      else if has_reduce fun_reduce \<and> reduce options \<noteq> Some (JBool False) \<and> include_docs options
         then Some (QueryParseError ''{include_docs:true} is invalid for reduce'')
      else None)"

section \<open>Scan bounds of a query on a persisted view\<close>

text \<open>The options that \<^verbatim>\<open>queryIndexInner\<close> hands to \<^verbatim>\<open>allDocs\<close> of the secondary store.\<close>

record indexOpts =
  ix_startkey :: "string option"
  ix_endkey :: "string option"
  ix_descending :: bool
  ix_limit :: "nat option"
  ix_skip :: "nat option"

definition normal_indexOpts :: "env \<Rightarrow> bool \<Rightarrow> opts \<Rightarrow> indexOpts" where
  \<comment> \<open>lines 1448 to 1479: a query without \<^verbatim>\<open>keys\<close>\<close>
  "normal_indexOpts e shouldReduce q =
     (let i0 = \<lparr>ix_startkey = None, ix_endkey = None, ix_descending = descending q,
                ix_limit = None, ix_skip = None\<rparr>;
          i1 = (case startkey q of
                  None \<Rightarrow> i0
                | Some b \<Rightarrow> i0\<lparr>ix_startkey := Some
                    (if descending q then toIndexableString e (JArr [b, JObj [], JObj [], JObj []])
                     else toIndexableString e (JArr [b]))\<rparr>);
          i2 = (case endkey q of
                  None \<Rightarrow> i1
                | Some b \<Rightarrow> i1\<lparr>ix_endkey := Some
                    (if descending q then toIndexableString e (JArr [b])
                     else toIndexableString e (JArr [b, JObj [], JObj [], JObj []]))\<rparr>);
          i3 = (case key q of
                  None \<Rightarrow> i2
                | Some b \<Rightarrow>
                    (let keyStart = toIndexableString e (JArr [b]);
                         keyEnd = toIndexableString e (JArr [b, JObj [], JObj [], JObj []])
                     in if ix_descending i2
                        then i2\<lparr>ix_endkey := Some keyStart, ix_startkey := Some keyEnd\<rparr>
                        else i2\<lparr>ix_startkey := Some keyStart, ix_endkey := Some keyEnd\<rparr>))
      in if \<not> shouldReduce
         then i3\<lparr>ix_limit := (case limit q of Limit n \<Rightarrow> Some n | _ \<Rightarrow> None), ix_skip := Some (skip q)\<rparr>
         else i3)"

section \<open>The secondary store\<close>

text \<open>
  A row of a view, \<^verbatim>\<open>{id, key, value}\<close>: \<open>row_id\<close> is the id of the emitting document.
  A persisted row may carry a \<^verbatim>\<open>reduceOutput\<close>, and a query with \<^verbatim>\<open>include_docs\<close>
  attaches a \<^verbatim>\<open>doc\<close>; a field that the object does not have is \<open>None\<close>.
\<close>

record row =
  row_id :: string
  row_key :: jsval
  row_value :: jsval
  reduceOutput :: "jsval option"
  row_doc :: "jsval option"

text \<open>
  The secondary store of an index is a database of its own. It holds the key/value records
  \<^verbatim>\<open>{_id, value, _deleted}\<close> under their \<^verbatim>\<open>_id\<close>, one meta record
  \<^verbatim>\<open>_local/doc_<docId>\<close> per source document (here under the \<open>docId\<close>) and the
  sequence record \<^verbatim>\<open>_local/lastSeq\<close>. The three kinds are kept apart: local documents
  are no rows of \<^verbatim>\<open>allDocs\<close>.
\<close>

record kvdoc =
  kv_value :: row
  kv_deleted :: bool

record store =
  kvs :: "(string \<times> kvdoc) list"
  metas :: "(string \<times> string list) list"
  lastSeqDoc :: "int option"

text \<open>
  The operations on a database are PouchDB's and may fail: \<open>flt\<close> says, for each
  operation, whether it fails and with which error. The operations of the updater are named
  by the sequence number of the change that they serve.
\<close>

datatype io_op =
    Info
  | OpenDb string
  | GetSeq string
  | Scan indexOpts
  | GetLastSeq int
  | GetMeta int
  | FetchOld int
  | BulkDocs int

datatype failure = Failed jsval | Threw string

definition io_error :: "(io_op \<Rightarrow> jsval option) \<Rightarrow> io_op \<Rightarrow> jsval option" where
  \<comment> \<open>the \<^verbatim>\<open>err\<close> that a callback tests with \<^verbatim>\<open>if (err)\<close>\<close>
  "io_error flt op = (case flt op of Some err \<Rightarrow> if truthy err then Some err else None | None \<Rightarrow> None)"

text \<open>
  Modelled from the spec: \<^verbatim>\<open>allDocs\<close> of the store (section 6 of the specification:
  rows in lexicographic key order, with \<^verbatim>\<open>startkey\<close>, \<^verbatim>\<open>endkey\<close>,
  \<^verbatim>\<open>descending\<close>, \<^verbatim>\<open>limit\<close>, \<^verbatim>\<open>skip\<close> and \<^verbatim>\<open>total_rows\<close>). Deleted records are
  no rows; descending, \<^verbatim>\<open>startkey\<close> is the upper end of the range.
\<close>

definition live :: "store \<Rightarrow> (string \<times> kvdoc) list" where
  "live st = sort_key fst (filter (\<lambda>(i, d). \<not> kv_deleted d) (kvs st))"

definition in_range :: "indexOpts \<Rightarrow> string \<Rightarrow> bool" where
  "in_range io i =
     (let lower = (if ix_descending io then ix_endkey io else ix_startkey io);
          upper = (if ix_descending io then ix_startkey io else ix_endkey io)
      in (case lower of None \<Rightarrow> True | Some l \<Rightarrow> l \<le> i)
       \<and> (case upper of None \<Rightarrow> True | Some u \<Rightarrow> i \<le> u))"

definition allDocs :: "store \<Rightarrow> indexOpts \<Rightarrow> nat \<times> (string \<times> kvdoc) list" where
  "allDocs st io =
     (let hits = filter (\<lambda>(i, d). in_range io i) (live st);
          ordered = (if ix_descending io then rev hits else hits);
          skipped = drop (case ix_skip io of None \<Rightarrow> 0 | Some n \<Rightarrow> n) ordered
      in (length (live st), (case ix_limit io of None \<Rightarrow> skipped | Some n \<Rightarrow> take n skipped)))"

section \<open>Queries on a persisted view\<close>

text \<open>
  The index handle (constructor \<^verbatim>\<open>Index\<close>, line 1655); its store \<^verbatim>\<open>index.db\<close> and
  its source database are passed next to it. A result is \<^verbatim>\<open>{total_rows, offset, rows}\<close>
  or \<^verbatim>\<open>{rows}\<close>; an entry of \<^verbatim>\<open>rows\<close> is a row or, after a reduction, a
  \<^verbatim>\<open>{key, value}\<close> pair.
\<close>

record index =
  name :: string
  mapFun :: string
  reduceFun :: "string option"
  seq :: int

datatype entry = Row row | Group jsval jsval

record result =
  total_rows :: "nat option"
  offset :: "nat option"
  rows :: "entry list"

text \<open>
  The rows of an answer are cut by
  \<^verbatim>\<open>('limit' in opts) ? xs.slice(skip, opts.limit + skip) : (skip > 0) ? xs.slice(skip) : xs\<close>.
  With a limit that is \<^verbatim>\<open>undefined\<close> the end \<^verbatim>\<open>opts.limit + skip\<close> of the slice is
  \<^verbatim>\<open>NaN\<close>, which \<^verbatim>\<open>slice\<close> reads as \<open>0\<close>: no row is left.
\<close>

definition slice :: "opts \<Rightarrow> 'a list \<Rightarrow> 'a list" where
  "slice q xs =
     (case limit q of
        Limit n \<Rightarrow> take n (drop (skip q) xs)
      | Undefined \<Rightarrow> []
      | Absent \<Rightarrow> if 0 < skip q then drop (skip q) xs else xs)"

text \<open>
  \<^verbatim>\<open>createKeysLookup\<close> (line 696). The table is keyed by \<^verbatim>\<open>processKey(key)\<close>, the
  JSON text of the normalized key; the model keeps the normalized key itself, which
  \<^verbatim>\<open>JSON.parse\<close> gives back from that text. An entry lists the positions of its key.
\<close>

definition processKey :: "env \<Rightarrow> jsval \<Rightarrow> jsval" where
  "processKey e k = normalizeKey e k"

fun createKeysLookup_from :: "env \<Rightarrow> nat \<Rightarrow> jsval list \<Rightarrow> (jsval \<times> nat list) list
    \<Rightarrow> (jsval \<times> nat list) list" where
  "createKeysLookup_from e i [] lookup = lookup"
| "createKeysLookup_from e i (k # ks) lookup =
     createKeysLookup_from e (Suc i) ks
       (case map_of lookup (processKey e k) of
          None \<Rightarrow> lookup @ [(processKey e k, [i])]
        | Some is \<Rightarrow> map (\<lambda>(k', js). if k' = processKey e k then (k', js @ [i]) else (k', js)) lookup)"

definition createKeysLookup :: "env \<Rightarrow> jsval list \<Rightarrow> (jsval \<times> nat list) list" where
  "createKeysLookup e ks = createKeysLookup_from e 0 ks []"

definition fetchFromIndex :: "(io_op \<Rightarrow> jsval option) \<Rightarrow> store \<Rightarrow> indexOpts
    \<Rightarrow> failure + (nat \<times> row list)" where
  \<comment> \<open>line 1354: the total and the \<^verbatim>\<open>doc.value\<close> of every row\<close>
  "fetchFromIndex flt st io =
     (case io_error flt (Scan io) of
        Some err \<Rightarrow> Inl (Failed err)
      | None \<Rightarrow> Inr (fst (allDocs st io), map (\<lambda>(i, d). kv_value d) (snd (allDocs st io))))"

text \<open>
  \<^verbatim>\<open>reduceIndex\<close> (line 1282). The rows are cut into groups, a row joining the last
  group when its key collates equal to that group's first key (every key is \<^verbatim>\<open>null\<close>
  unless \<^verbatim>\<open>group\<close> or \<^verbatim>\<open>group_level\<close> is set). A group of one row takes the stored
  \<^verbatim>\<open>reduceOutput\<close>; a longer one rereduces the stored outputs.
\<close>

record pregroup =
  pg_key :: "(jsval \<times> string) list"
  pg_value :: "jsval list"

definition first_key :: "pregroup \<Rightarrow> jsval" where
  \<comment> \<open>\<^verbatim>\<open>e.key[0][0]\<close>; a group has at least one row\<close>
  "first_key g = (case pg_key g of [] \<Rightarrow> JUndefined | (k, i) # rest \<Rightarrow> k)"

definition add_to_groups :: "env \<Rightarrow> bool \<Rightarrow> (row \<Rightarrow> jsval) \<Rightarrow> pregroup list \<Rightarrow> row \<Rightarrow> pregroup list" where
  "add_to_groups e shouldGroup val groups r =
     (let k = (if shouldGroup then row_key r else JNull)
      in if groups \<noteq> [] \<and> collate e (first_key (last groups)) k = 0
         then butlast groups @
                [\<lparr>pg_key = pg_key (last groups) @ [(k, row_id r)],
                  pg_value = pg_value (last groups) @ [val r]\<rparr>]
         else groups @ [\<lparr>pg_key = [(k, row_id r)], pg_value = [val r]\<rparr>])"

definition stored_output :: "row \<Rightarrow> jsval" where
  \<comment> \<open>\<^verbatim>\<open>e.reduceOutput\<close>\<close>
  "stored_output r = (case reduceOutput r of Some v \<Rightarrow> v | None \<Rightarrow> JUndefined)"

definition is_reduce_error :: "jsval \<Rightarrow> bool" where
  \<comment> \<open>\<^verbatim>\<open>v.sumsqr && v.sumsqr.status === 500\<close>\<close>
  "is_reduce_error v =
     (truthy (get_field v ''sumsqr'') \<and> get_field (get_field v ''sumsqr'') ''status'' = JNum (Fin 500))"

fun rereduce_groups :: "env \<Rightarrow> string \<Rightarrow> pregroup list \<Rightarrow> jsval option
    \<Rightarrow> failure + (jsval option \<times> entry list)" where
  "rereduce_groups e src [] err = Inr (err, [])"
| "rereduce_groups e src (g # gs) err =
     (let v = (case pg_value g of
                 [x] \<Rightarrow> x
               | xs \<Rightarrow> reduceFun_of e src JNull xs (JBool True))
      in if v = JNull \<or> v = JUndefined then Inl (Threw ''TypeError'')
         else if is_reduce_error v then
           (case rereduce_groups e src gs (Some v) of
              Inl f \<Rightarrow> Inl f
            | Inr (err', out) \<Rightarrow> Inr (err', Group (JArr (map (\<lambda>(k, i). JArr [k, JStr i]) (pg_key g))) v # out))
         else
           (case rereduce_groups e src gs err of
              Inl f \<Rightarrow> Inl f
            | Inr (err', out) \<Rightarrow> Inr (err', Group (first_key g) v # out)))"

definition reduceIndex :: "env \<Rightarrow> index \<Rightarrow> row list \<Rightarrow> opts \<Rightarrow> failure + result" where
  "reduceIndex e ix results q =
     (let shouldGroup = (group q \<or> group_level q);
          groups = foldl (add_to_groups e shouldGroup stored_output) [] results
      in case rereduce_groups e (case reduceFun ix of Some src \<Rightarrow> src | None \<Rightarrow> ''undefined'') groups None of
           Inl f \<Rightarrow> Inl f
         | Inr (Some err, out) \<Rightarrow> Inl (Failed err)
         | Inr (None, out) \<Rightarrow> Inr \<lparr>total_rows = None, offset = None, rows = slice q out\<rparr>)"

text \<open>
  The source database: its name, its documents by id (\<^verbatim>\<open>get\<close>, an error or the
  document) and its change feed after a sequence number.
\<close>

record change =
  ch_id :: string
  ch_seq :: int
  ch_doc :: jsval
  ch_deleted :: bool

record source =
  db_name :: "jsval + string"
  src_get :: "jsval \<Rightarrow> jsval + jsval"
  src_changes :: "int \<Rightarrow> change list"

definition is_object :: "jsval \<Rightarrow> bool" where
  \<comment> \<open>\<^verbatim>\<open>val && typeof val === 'object'\<close>\<close>
  "is_object v = (case v of JArr _ \<Rightarrow> True | JObj _ \<Rightarrow> True | JError _ \<Rightarrow> True | _ \<Rightarrow> False)"

definition join_id :: "row \<Rightarrow> jsval" where
  \<comment> \<open>\<^verbatim>\<open>(val && typeof val === 'object' && val._id) || viewRow.id\<close>, line 1388\<close>
  "join_id r =
     (if is_object (row_value r) \<and> truthy (get_field (row_value r) ''_id'')
      then get_field (row_value r) ''_id'' else JStr (row_id r))"

definition attach_doc :: "source \<Rightarrow> row \<Rightarrow> row" where
  "attach_doc src r =
     (case src_get src (join_id r) of
        Inr d \<Rightarrow> if truthy d then r\<lparr>row_doc := Some d\<rparr> else r
      | Inl err \<Rightarrow> r)"

definition onMapResultsReady :: "env \<Rightarrow> source \<Rightarrow> index \<Rightarrow> opts \<Rightarrow> bool \<Rightarrow> nat \<Rightarrow> row list
    \<Rightarrow> failure + result" where
  \<comment> \<open>line 1368; \<open>totalRows\<close> is what the last scan reported\<close>
  "onMapResultsReady e src ix q shouldReduce totalRows results =
     (if shouldReduce then reduceIndex e ix results q
      else
        (let results1 = map (\<lambda>r. r\<lparr>reduceOutput := None\<rparr>) results;
             results2 = (if include_docs q \<and> results1 \<noteq> [] then map (attach_doc src) results1
                         else results1)
         in Inr \<lparr>total_rows = Some totalRows, offset = Some (skip q), rows = map Row results2\<rparr>))"

text \<open>
  The \<^verbatim>\<open>keys\<close> branch (lines 1404 to 1445): one scan per entry of the lookup table, its
  rows stored at every position of that key; the first failing scan ends the query.
\<close>

fun fetch_keys :: "env \<Rightarrow> (io_op \<Rightarrow> jsval option) \<Rightarrow> store \<Rightarrow> (jsval \<times> nat list) list
    \<Rightarrow> row list option list \<Rightarrow> nat \<Rightarrow> failure + (nat \<times> row list option list)" where
  "fetch_keys e flt st [] results totalRows = Inr (totalRows, results)"
| "fetch_keys e flt st ((trueKey, indices) # rest) results totalRows =
     (case fetchFromIndex flt st
             \<lparr>ix_startkey = Some (toIndexableString e (JArr [trueKey])),
              ix_endkey = Some (toIndexableString e (JArr [trueKey, JObj [], JObj [], JObj []])),
              ix_descending = False, ix_limit = None, ix_skip = None\<rparr> of
        Inl f \<Rightarrow> Inl f
      | Inr (n, subResults) \<Rightarrow>
          fetch_keys e flt st rest
            (foldl (\<lambda>res i. res[i := Some subResults]) results indices) n)"

definition queryIndexInner :: "env \<Rightarrow> (io_op \<Rightarrow> jsval option) \<Rightarrow> source \<Rightarrow> index \<Rightarrow> store
    \<Rightarrow> opts \<Rightarrow> failure + result" where
  "queryIndexInner e flt src ix st opts0 =
     (let shouldReduce = (has_reduce (reduceFun ix) \<and> reduce opts0 \<noteq> Some (JBool False));
          q = (if keys opts0 = Some [] then opts0\<lparr>limit := Limit 0, keys := None\<rparr> else opts0)
      in case keys q of
           Some ks \<Rightarrow>
             (case fetch_keys e flt st (createKeysLookup e ks) (replicate (length ks) None) 0 of
                Inl f \<Rightarrow> Inl f
              | Inr (totalRows, results) \<Rightarrow>
                  (let combinedResults = concat (map (\<lambda>r. case r of Some xs \<Rightarrow> xs | None \<Rightarrow> []) results)
                   in onMapResultsReady e src ix q shouldReduce totalRows
                        (if \<not> shouldReduce then slice q combinedResults else combinedResults)))
         | None \<Rightarrow>
             (case fetchFromIndex flt st (normal_indexOpts e shouldReduce q) of
                Inl f \<Rightarrow> Inl f
              | Inr (totalRows, results) \<Rightarrow> onMapResultsReady e src ix q shouldReduce totalRows results))"

section \<open>Queries on a temporary view\<close>

text \<open>
  \<^verbatim>\<open>viewQuery\<close> maps every document of the source and keeps the rows in memory.
  \<^verbatim>\<open>index.js\<close> holds the function twice: at line 853, and in an earlier form at
  line 167. The two share what follows (\<^verbatim>\<open>emit\<close>, the change feed, the sorting) word for
  word and differ in \<^verbatim>\<open>checkComplete\<close>.
\<close>

record viewfun =
  map_src :: string
  reduce_src :: "string option"

definition sortByKeyIdValue :: "env \<Rightarrow> row \<Rightarrow> row \<Rightarrow> int" where
  "sortByKeyIdValue e a b =
     (let keyCompare = collate e (row_key a) (row_key b)
      in if keyCompare \<noteq> 0 then keyCompare
         else (let idCompare = collate e (JStr (row_id a)) (JStr (row_id b))
               in if idCompare \<noteq> 0 then idCompare else collate e (row_value a) (row_value b)))"

text \<open>\<^verbatim>\<open>xs.sort(cmp)\<close>, as an insertion sort that keeps equal elements in their order.\<close>

fun insert_by :: "('a \<Rightarrow> 'a \<Rightarrow> int) \<Rightarrow> 'a \<Rightarrow> 'a list \<Rightarrow> 'a list" where
  "insert_by cmp x [] = [x]"
| "insert_by cmp x (y # ys) = (if cmp x y \<le> 0 then x # y # ys else y # insert_by cmp x ys)"

definition sort_by :: "('a \<Rightarrow> 'a \<Rightarrow> int) \<Rightarrow> 'a list \<Rightarrow> 'a list" where
  "sort_by cmp xs = foldr (insert_by cmp) xs []"

definition underscore_id :: "string \<Rightarrow> bool" where
  \<comment> \<open>\<^verbatim>\<open>doc.id[0] === '_'\<close>\<close>
  "underscore_id i = (case i of [] \<Rightarrow> False | c # cs \<Rightarrow> c = CHR ''_'')"

definition emit_view :: "env \<Rightarrow> source \<Rightarrow> opts \<Rightarrow> change \<Rightarrow> jsval \<times> jsval \<Rightarrow> row option" where
  \<comment> \<open>\<^verbatim>\<open>emit\<close> of \<^verbatim>\<open>viewQuery\<close> (line 874): the row that is pushed, if any\<close>
  "emit_view e src q c kv =
     (let k = fst kv; val = snd kv;
          startk = (if descending q then endkey q else startkey q);
          endk = (if descending q then startkey q else endkey q);
          viewRow = \<lparr>row_id = ch_id c, row_key = normalizeKey e k, row_value = normalizeKey e val,
                     reduceOutput = None, row_doc = None\<rparr>
      in if (case startk of Some b \<Rightarrow> collate e k b < 0 | None \<Rightarrow> False) then None
         else if (case endk of Some b \<Rightarrow> 0 < collate e k b | None \<Rightarrow> False) then None
         else if (case key q of Some b \<Rightarrow> collate e k b \<noteq> 0 | None \<Rightarrow> False) then None
         else if (case keys q of Some ks \<Rightarrow> map_of (createKeysLookup e ks) (processKey e k) = None
                  | None \<Rightarrow> False) then None
         else if include_docs q then
           (if is_object val \<and> truthy (get_field val ''_id'') then
              (case src_get src (get_field val ''_id'') of
                 Inr d \<Rightarrow> Some (if truthy d then viewRow\<lparr>row_doc := Some d\<rparr> else viewRow)
               | Inl err \<Rightarrow> Some viewRow)
            else Some (viewRow\<lparr>row_doc := Some (ch_doc c)\<rparr>))
         else Some viewRow)"

definition mapped :: "change list \<Rightarrow> change list" where
  \<comment> \<open>\<^verbatim>\<open>onChange\<close>, line 1001: deleted documents and ids starting with \<^verbatim>\<open>_\<close> are not mapped\<close>
  "mapped cs = filter (\<lambda>c. \<not> ch_deleted c \<and> \<not> underscore_id (ch_id c)) cs"

definition view_emits :: "env \<Rightarrow> viewfun \<Rightarrow> change list \<Rightarrow> (change \<times> (jsval \<times> jsval)) list" where
  "view_emits e f cs = concat (map (\<lambda>c. map (Pair c) (evalMap e (map_src f) (ch_doc c))) (mapped cs))"

definition view_results :: "env \<Rightarrow> source \<Rightarrow> viewfun \<Rightarrow> opts \<Rightarrow> row list" where
  \<comment> \<open>\<^verbatim>\<open>results\<close> when the feed is complete\<close>
  "view_results e src f q =
     concat (map (\<lambda>(c, kv). case emit_view e src q c kv of Some r \<Rightarrow> [r] | None \<Rightarrow> [])
                 (view_emits e f (src_changes src 0)))"

text \<open>
  \<^verbatim>\<open>mapUsingKeys\<close> (line 806): every row goes to the positions of its key, and the
  positions are flattened in order, each sorted. A row whose key is not in the table makes
  the function throw.
\<close>

fun mapUsingKeys_fill :: "env \<Rightarrow> (jsval \<times> nat list) list \<Rightarrow> row list \<Rightarrow> row list list
    \<Rightarrow> failure + row list list" where
  "mapUsingKeys_fill e lookup [] prelim = Inr prelim"
| "mapUsingKeys_fill e lookup (r # rs) prelim =
     (case map_of lookup (processKey e (row_key r)) of
        None \<Rightarrow> Inl (Threw ''TypeError'')
      | Some idxs \<Rightarrow>
          mapUsingKeys_fill e lookup rs (foldl (\<lambda>p i. p[i := p ! i @ [r]]) prelim idxs))"

definition mapUsingKeys :: "env \<Rightarrow> row list \<Rightarrow> jsval list \<Rightarrow> failure + row list" where
  "mapUsingKeys e inputResults ks =
     (case mapUsingKeys_fill e (createKeysLookup e ks) inputResults (replicate (length ks) []) of
        Inl f \<Rightarrow> Inl f
      | Inr prelim \<Rightarrow> Inr (concat (map (sort_by (sortByKeyIdValue e)) prelim)))"

definition view_sorted :: "env \<Rightarrow> source \<Rightarrow> viewfun \<Rightarrow> opts \<Rightarrow> failure + row list" where
  \<comment> \<open>the first lines of \<^verbatim>\<open>checkComplete\<close>, 944 to 952\<close>
  "view_sorted e src f q =
     (let results = view_results e src f q in
      case (case keys q of
              Some ks \<Rightarrow> if results \<noteq> [] then mapUsingKeys e results ks
                         else Inr (sort_by (sortByKeyIdValue e) results)
            | None \<Rightarrow> Inr (sort_by (sortByKeyIdValue e) results)) of
        Inl f \<Rightarrow> Inl f
      | Inr rs \<Rightarrow> Inr (if descending q then rev rs else rs))"

text \<open>
  The reduction of \<^verbatim>\<open>checkComplete\<close>: the groups are cut as in \<^verbatim>\<open>reduceIndex\<close>, but
  over the values, and each is reduced by \<^verbatim>\<open>fun.reduce(keys, values)\<close>; a result whose
  \<^verbatim>\<open>sumsqr\<close> is an \<^verbatim>\<open>Error\<close> is the error of the query.
\<close>

definition is_error_instance :: "jsval \<Rightarrow> bool" where
  \<comment> \<open>\<^verbatim>\<open>v.sumsqr && v.sumsqr instanceof Error\<close>\<close>
  "is_error_instance v =
     (truthy (get_field v ''sumsqr'') \<and> (case get_field v ''sumsqr'' of JError _ \<Rightarrow> True | _ \<Rightarrow> False))"

fun reduce_groups :: "env \<Rightarrow> string \<Rightarrow> pregroup list \<Rightarrow> jsval option
    \<Rightarrow> failure + (jsval option \<times> entry list)" where
  "reduce_groups e src [] err = Inr (err, [])"
| "reduce_groups e src (g # gs) err =
     (let ks = JArr (map (\<lambda>(k, i). JArr [k, JStr i]) (pg_key g));
          v = reduceFun_of e src ks (pg_value g) JUndefined
      in if v = JNull \<or> v = JUndefined then Inl (Threw ''TypeError'')
         else if is_error_instance v then
           (case reduce_groups e src gs (Some v) of
              Inl f \<Rightarrow> Inl f
            | Inr (err', out) \<Rightarrow> Inr (err', Group ks v # out))
         else
           (case reduce_groups e src gs err of
              Inl f \<Rightarrow> Inl f
            | Inr (err', out) \<Rightarrow> Inr (err', Group (first_key g) v # out)))"

definition viewQuery :: "env \<Rightarrow> source \<Rightarrow> viewfun \<Rightarrow> opts \<Rightarrow> failure + result" where
  \<comment> \<open>line 853\<close>
  "viewQuery e src f options0 =
     (let q = (if \<not> has_reduce (reduce_src f) then options0\<lparr>reduce := Some (JBool False)\<rparr> else options0);
          totalRows = length (view_emits e f (src_changes src 0))
      in case view_sorted e src f q of
           Inl fl \<Rightarrow> Inl fl
         | Inr results \<Rightarrow>
             if reduce q = Some (JBool False)
             then Inr \<lparr>total_rows = Some totalRows, offset = Some (skip q), rows = map Row (slice q results)\<rparr>
             else
               (let shouldGroup = (group q \<or> group_level q);
                    groups = foldl (add_to_groups e shouldGroup row_value) [] results
                in case reduce_groups e (case reduce_src f of Some s \<Rightarrow> s | None \<Rightarrow> []) groups None of
                     Inl fl \<Rightarrow> Inl fl
                   | Inr (Some err, out) \<Rightarrow> Inl (Failed err)
                   | Inr (None, out) \<Rightarrow> Inr \<lparr>total_rows = None, offset = None, rows = slice q out\<rparr>))"

text \<open>
  The earlier \<^verbatim>\<open>viewQuery\<close> (line 167). It checks the key range itself, always groups
  by the key of the row, and its \<^verbatim>\<open>checkComplete\<close> (lines 265 to 318) passes
  \<^verbatim>\<open>total_rows\<close> and \<^verbatim>\<open>offset\<close> with the reduced rows as well.
\<close>

definition viewQuery_167 :: "env \<Rightarrow> source \<Rightarrow> viewfun \<Rightarrow> opts \<Rightarrow> failure + result" where
  "viewQuery_167 e src f options0 =
     (let q = (if \<not> has_reduce (reduce_src f) then options0\<lparr>reduce := Some (JBool False)\<rparr> else options0);
          totalRows = length (view_emits e f (src_changes src 0))
      in if inverted_range e q
         then Inl (Failed (JObj [(''status'', JNum (Fin 400)), (''name'', JStr ''query_parse_error''),
                 (''message'', JStr (''No rows can match your key range, reverse your '' @
                                     ''start_key and end_key or set {descending : true}''))]))
         else case view_sorted e src f q of
           Inl fl \<Rightarrow> Inl fl
         | Inr results \<Rightarrow>
             if reduce q = Some (JBool False)
             then Inr \<lparr>total_rows = Some totalRows, offset = Some (skip q), rows = map Row (slice q results)\<rparr>
             else
               (let groups = foldl (add_to_groups e True row_value) [] results
                in case reduce_groups e (case reduce_src f of Some s \<Rightarrow> s | None \<Rightarrow> []) groups None of
                     Inl fl \<Rightarrow> Inl fl
                   | Inr (Some err, out) \<Rightarrow> Inl (Failed err)
                   | Inr (None, out) \<Rightarrow>
                       Inr \<lparr>total_rows = Some totalRows, offset = Some (skip q), rows = slice q out\<rparr>))"

section \<open>The incremental updater\<close>

text \<open>
  \<^verbatim>\<open>callMapFun\<close> (line 1113) maps one changed document and writes its rows to the
  store. The table \<^verbatim>\<open>indexableKeysToKeyValues\<close> is an object keyed by the composite
  string: a second \<^verbatim>\<open>emit\<close> under the same string replaces the row in place. The id of
  the document is \<^verbatim>\<open>doc.doc._id\<close>, which is the \<^verbatim>\<open>id\<close> of its change record.
\<close>

fun table_put :: "string \<Rightarrow> 'v \<Rightarrow> (string \<times> 'v) list \<Rightarrow> (string \<times> 'v) list" where
  "table_put k v [] = [(k, v)]"
| "table_put k v ((k', v') # t) = (if k' = k then (k, v) # t else (k', v') # table_put k v t)"

definition indexableStringKey :: "env \<Rightarrow> string \<Rightarrow> jsval \<Rightarrow> jsval \<Rightarrow> nat \<Rightarrow> string" where
  \<comment> \<open>line 1120: \<^verbatim>\<open>toIndexableString([key, docId, value, i++])\<close>\<close>
  "indexableStringKey e docId k v i =
     toIndexableString e (JArr [k, JStr docId, v, JNum (Fin (int i))])"

fun emit_all :: "env \<Rightarrow> string \<Rightarrow> nat \<Rightarrow> (jsval \<times> jsval) list \<Rightarrow> (string \<times> row) list
    \<Rightarrow> (string \<times> row) list" where
  "emit_all e docId i [] tbl = tbl"
| "emit_all e docId i ((k, v) # rest) tbl =
     emit_all e docId (Suc i) rest
       (table_put (indexableStringKey e docId k v i)
          \<lparr>row_id = docId, row_key = normalizeKey e k, row_value = normalizeKey e v,
           reduceOutput = None, row_doc = None\<rparr> tbl)"

definition indexableKeysToKeyValues :: "env \<Rightarrow> index \<Rightarrow> change \<Rightarrow> (string \<times> row) list" where
  \<comment> \<open>the table when the map function has run and the rows carry their \<^verbatim>\<open>reduceOutput\<close>\<close>
  "indexableKeysToKeyValues e ix c =
     (if ch_deleted c then []
      else
        (let tbl = emit_all e (ch_id c) 0 (evalMap e (mapFun ix) (ch_doc c)) []
         in case reduceFun ix of
              Some src \<Rightarrow>
                if src \<noteq> [] then
                  map (\<lambda>(k, r). (k, r\<lparr>reduceOutput :=
                         Some (reduceFun_of e src (JArr [row_key r]) [row_value r] (JBool False))\<rparr>)) tbl
                else tbl
            | None \<Rightarrow> tbl))"




text \<open>The documents of one \<^verbatim>\<open>bulkDocs\<close> call.\<close>

datatype wdoc = KV string kvdoc | Meta string "string list" | LastSeq int

fun uniq :: "string list \<Rightarrow> string list" where
  \<comment> \<open>\<^verbatim>\<open>utils.uniq\<close>: the first occurrence of every element, in order\<close>
  "uniq [] = []"
| "uniq (x # xs) = x # filter (\<lambda>y. y \<noteq> x) (uniq xs)"

definition fetch_old :: "store \<Rightarrow> string list \<Rightarrow> (string \<times> kvdoc) list" where
  \<comment> \<open>\<^verbatim>\<open>allDocs({keys, include_docs})\<close>, the rows that have a document\<close>
  "fetch_old st ks =
     concat (map (\<lambda>k. case map_of (kvs st) k of
                         Some d \<Rightarrow> if kv_deleted d then [] else [(k, d)]
                       | None \<Rightarrow> []) ks)"

definition batch_of :: "(string \<times> row) list \<Rightarrow> string \<Rightarrow> string list \<Rightarrow> (string \<times> kvdoc) list
    \<Rightarrow> int \<Rightarrow> wdoc list" where
  \<comment> \<open>lines 1179 to 1208: old records are deleted or rewritten, new keys give new records\<close>
  "batch_of tbl docId metaKeys old s =
     (let kvDocs = map (\<lambda>(i, d). case map_of tbl i of
                                   None \<Rightarrow> KV i (d\<lparr>kv_deleted := True\<rparr>)
                                 | Some r \<Rightarrow> KV i (d\<lparr>kv_deleted := False, kv_value := r\<rparr>)) old;
          fresh = map (\<lambda>(k, r). KV k \<lparr>kv_value = r, kv_deleted = False\<rparr>)
                      (filter (\<lambda>(k, r). k \<notin> fst ` set old) tbl)
      in kvDocs @ fresh @ [Meta docId (uniq (map fst tbl @ metaKeys)), LastSeq s])"

text \<open>
  Modelled from the spec: \<^verbatim>\<open>bulkDocs\<close> of the store (section 4.3: all changes are
  written in one atomic batch). Every document of the batch replaces the one of its id.
\<close>

fun write_doc :: "store \<Rightarrow> wdoc \<Rightarrow> store" where
  "write_doc st (KV i d) = st\<lparr>kvs := table_put i d (kvs st)\<rparr>"
| "write_doc st (Meta docId ks) = st\<lparr>metas := table_put docId ks (metas st)\<rparr>"
| "write_doc st (LastSeq s) = st\<lparr>lastSeqDoc := Some s\<rparr>"

definition bulkDocs :: "store \<Rightarrow> wdoc list \<Rightarrow> store" where
  "bulkDocs st docs = foldl write_doc st docs"

definition not_found :: "jsval \<Rightarrow> bool" where
  "not_found err = (get_field err ''name'' = JStr ''not_found'')"

definition get_error :: "(io_op \<Rightarrow> jsval option) \<Rightarrow> io_op \<Rightarrow> jsval option" where
  \<comment> \<open>a \<^verbatim>\<open>get\<close> whose error is not \<^verbatim>\<open>not_found\<close> ends the call\<close>
  "get_error flt op =
     (case io_error flt op of Some err \<Rightarrow> if not_found err then None else Some err | None \<Rightarrow> None)"

definition get_missing :: "(io_op \<Rightarrow> jsval option) \<Rightarrow> io_op \<Rightarrow> bool" where
  "get_missing flt op = (case io_error flt op of Some err \<Rightarrow> not_found err | None \<Rightarrow> False)"

definition callMapFun :: "env \<Rightarrow> (io_op \<Rightarrow> jsval option) \<Rightarrow> index \<Rightarrow> store \<Rightarrow> change
    \<Rightarrow> jsval + store" where
  "callMapFun e flt ix st c =
     (let s = ch_seq c; docId = ch_id c;
          tbl = indexableKeysToKeyValues e ix c
      in case get_error flt (GetLastSeq s) of Some err \<Rightarrow> Inl err | None \<Rightarrow>
        (case get_error flt (GetMeta s) of Some err \<Rightarrow> Inl err | None \<Rightarrow>
          (let metaKeys = (if get_missing flt (GetMeta s) then []
                           else case map_of (metas st) docId of Some ks \<Rightarrow> ks | None \<Rightarrow> [])
           in case io_error flt (FetchOld s) of Some err \<Rightarrow> Inl err | None \<Rightarrow>
             (case io_error flt (BulkDocs s) of Some err \<Rightarrow> Inl err | None \<Rightarrow>
                Inr (bulkDocs st (batch_of tbl docId metaKeys (fetch_old st metaKeys) s))))))"

text \<open>
  \<^verbatim>\<open>updateIndexInner\<close> (line 1111). The change feed calls \<^verbatim>\<open>onChange\<close> for every
  change after \<^verbatim>\<open>index.seq\<close> and then \<^verbatim>\<open>complete\<close>; every change becomes a task
  \<^verbatim>\<open>processChange\<close> of a queue local to the run, and the callback of a task ends in
  \<^verbatim>\<open>checkComplete\<close>. The state of a run holds the variables of the closure, the store,
  \<^verbatim>\<open>index.seq\<close>, the changes not yet delivered, and the calls of \<^verbatim>\<open>ultimateCB\<close>
  made so far (\<open>None\<close> is \<^verbatim>\<open>ultimateCB(null)\<close>).
\<close>

record run =
  r_store :: store
  lastSeq :: int
  gotError :: "jsval option"
  reportedError :: bool
  complete :: bool
  numStarted :: nat
  numFinished :: nat
  queue :: "change list"
  feed :: "change list"
  index_seq :: int
  calls :: "jsval option list"

definition checkComplete :: "run \<Rightarrow> run" where
  \<comment> \<open>line 1227\<close>
  "checkComplete r =
     (case gotError r of
        Some err \<Rightarrow>
          if \<not> reportedError r then r\<lparr>reportedError := True, calls := calls r @ [Some err]\<rparr> else r
      | None \<Rightarrow>
          if complete r \<and> numStarted r = numFinished r
          then r\<lparr>index_seq := lastSeq r, calls := calls r @ [None]\<rparr> else r)"

text \<open>
  \<^verbatim>\<open>processChange\<close> (line 1242), together with the callback that \<^verbatim>\<open>onChange\<close> gave
  the task (line 1267): \<^verbatim>\<open>if (err) { gotError = err; } checkComplete();\<close>. The user's
  functions run at the start of \<^verbatim>\<open>callMapFun\<close>, before any operation on the store, and
  not for a deleted document.

  Modelled from the spec: a task that throws (\<^verbatim>\<open>./taskqueue\<close> is not among the sources;
  section 7 of the specification: when user code throws, the processing of the current
  document is aborted and the update has failed). The queue hands what was thrown to the
  callback of the task.
\<close>

definition thrown :: "env \<Rightarrow> index \<Rightarrow> change \<Rightarrow> jsval option" where
  "thrown e ix c = (if ch_deleted c then None else throws e (mapFun ix) (reduceFun ix) (ch_doc c))"

definition processChange :: "env \<Rightarrow> (io_op \<Rightarrow> jsval option) \<Rightarrow> index \<Rightarrow> change \<Rightarrow> run \<Rightarrow> run" where
  "processChange e flt ix c r =
     (if underscore_id (ch_id c) then checkComplete (r\<lparr>numFinished := numFinished r + 1\<rparr>)
      else if ch_seq c < index_seq r then checkComplete r
      else case thrown e ix c of
             Some v \<Rightarrow> checkComplete (if truthy v then r\<lparr>gotError := Some v\<rparr> else r)
           | None \<Rightarrow>
               (case callMapFun e flt ix (r_store r) c of
                  Inl err \<Rightarrow> checkComplete (r\<lparr>gotError := Some err\<rparr>)
                | Inr st' \<Rightarrow>
                    checkComplete (r\<lparr>r_store := st', lastSeq := max (lastSeq r) (ch_seq c),
                                     numFinished := numFinished r + 1\<rparr>)))"

text \<open>
  Modelled from the spec: the task queue (\<^verbatim>\<open>./taskqueue\<close> is not among the sources;
  section 4.6 of the specification: tasks run one at a time, in the order of submission,
  each to completion). A run is a sequence of events: the feed delivers its next change to
  \<^verbatim>\<open>onChange\<close>, the task at the head of the queue runs, or the feed completes, once, when
  all its changes are delivered. An event that cannot take place leaves the state as it is.
\<close>

datatype event = OnChange | RunTask | Complete

fun step :: "env \<Rightarrow> (io_op \<Rightarrow> jsval option) \<Rightarrow> index \<Rightarrow> run \<Rightarrow> event \<Rightarrow> run" where
  "step e flt ix r OnChange =
     (case feed r of
        [] \<Rightarrow> r
      | c # cs \<Rightarrow> r\<lparr>feed := cs, numStarted := numStarted r + 1, queue := queue r @ [c]\<rparr>)"
| "step e flt ix r RunTask =
     (case queue r of
        [] \<Rightarrow> r
      | c # cs \<Rightarrow> processChange e flt ix c (r\<lparr>queue := cs\<rparr>))"
| "step e flt ix r Complete =
     (if feed r = [] \<and> \<not> complete r then checkComplete (r\<lparr>complete := True\<rparr>) else r)"

definition start :: "source \<Rightarrow> index \<Rightarrow> store \<Rightarrow> run" where
  "start src ix st =
     \<lparr>r_store = st, lastSeq = seq ix, gotError = None, reportedError = False, complete = False,
      numStarted = 0, numFinished = 0, queue = [], feed = src_changes src (seq ix),
      index_seq = seq ix, calls = []\<rparr>"

definition updateIndexInner :: "env \<Rightarrow> (io_op \<Rightarrow> jsval option) \<Rightarrow> source \<Rightarrow> index \<Rightarrow> store
    \<Rightarrow> event list \<Rightarrow> run" where
  "updateIndexInner e flt src ix st sched = foldl (step e flt ix) (start src ix st) sched"

section \<open>Opening an index and answering a query\<close>

text \<open>
  \<^verbatim>\<open>hexHashCode\<close> (line 674): \<^verbatim>\<open>hash = ((hash << 5) - hash) + char\<close> over the
  characters, the shift being on 32-bit integers, and the low 28 bits in hexadecimal.
\<close>

definition int32 :: "int \<Rightarrow> int" where
  "int32 x = (x + 2 ^ 31) mod 2 ^ 32 - 2 ^ 31"

definition hash_step :: "int \<Rightarrow> char \<Rightarrow> int" where
  "hash_step h c = int32 (int32 h * 32) - h + int (of_char c)"

function hex_of_nat :: "nat \<Rightarrow> string" where
  "hex_of_nat n =
     (if n < 16 then [''0123456789abcdef'' ! n]
      else hex_of_nat (n div 16) @ [''0123456789abcdef'' ! (n mod 16)])"
  by pat_completeness auto
termination
  by (relation "measure id") auto

declare hex_of_nat.simps [simp del]

definition hexHashCode :: "string \<Rightarrow> string" where
  "hexHashCode str = hex_of_nat (nat (foldl hash_step 0 str mod 2 ^ 28))"

text \<open>
  \<^verbatim>\<open>getIndex\<close> (line 1078). The secondary stores are the databases of the adapter, by
  name; one that was never written is empty. The handle's \<open>seq\<close> is read from
  \<^verbatim>\<open>_local/lastSeq\<close>.
\<close>

type_synonym world = "string \<Rightarrow> store"

definition getIndex :: "(io_op \<Rightarrow> jsval option) \<Rightarrow> source \<Rightarrow> world \<Rightarrow> string \<Rightarrow> string option
    \<Rightarrow> jsval + index" where
  "getIndex flt src w mapSrc reduceSrc =
     (case db_name src of
        Inl err \<Rightarrow> Inl err
      | Inr dbn \<Rightarrow>
          (let nm = dbn @ ''-mrview-'' @
                    hexHashCode (mapSrc @ (case reduceSrc of Some r \<Rightarrow> r | None \<Rightarrow> ''undefined''))
           in case io_error flt (OpenDb nm) of
                Some err \<Rightarrow> Inl err
              | None \<Rightarrow>
                  (case get_error flt (GetSeq nm) of
                     Some err \<Rightarrow> Inl err
                   | None \<Rightarrow>
                       Inr \<lparr>name = nm, mapFun = mapSrc, reduceFun = reduceSrc,
                            seq = (if get_missing flt (GetSeq nm) then 0
                                   else case lastSeqDoc (w nm) of Some n \<Rightarrow> n | None \<Rightarrow> 0)\<rparr>)))"

text \<open>
  \<^verbatim>\<open>exports.query\<close> (line 1546) on a database that is not remote. The view is given
  inline or as \<^verbatim>\<open>designDoc/viewName\<close>. The answer is what the callback receives, or
  \<open>None\<close> when it is never called: \<^verbatim>\<open>updateIndex\<close> and \<^verbatim>\<open>queryIndex\<close> are tasks of
  one queue, so a query waits for the update before it, and an update that never calls
  back holds it for ever. The schedule \<open>sched\<close> is the order of events of the update run.
\<close>

datatype viewspec = TempView viewfun | NamedView string string

definition string_field :: "jsval \<Rightarrow> string \<Rightarrow> string option" where
  "string_field v f = (case get_field v f of JStr s \<Rightarrow> Some s | _ \<Rightarrow> None)"

definition first_call :: "run \<Rightarrow> jsval option option" where
  "first_call r = (case calls r of [] \<Rightarrow> None | x # xs \<Rightarrow> Some x)"

definition query_index :: "env \<Rightarrow> (io_op \<Rightarrow> jsval option) \<Rightarrow> source \<Rightarrow> world \<Rightarrow> index \<Rightarrow> opts
    \<Rightarrow> event list \<Rightarrow> world \<times> (failure + result) option" where
  \<comment> \<open>the callback of \<^verbatim>\<open>getIndex\<close>, lines 1623 to 1644\<close>
  "query_index e flt src w ix q sched =
     (if stale q = Some ''ok'' then (w, Some (queryIndexInner e flt src ix (w (name ix)) q))
      else
        (let r = updateIndexInner e flt src ix (w (name ix)) sched;
             w' = w(name ix := r_store r)
         in case first_call r of
              None \<Rightarrow> (w', None)
            | Some (Some err) \<Rightarrow>
                if stale q = Some ''update_after''
                then (w', Some (queryIndexInner e flt src ix (r_store r) q))
                else (w', Some (Inl (Failed err)))
            | Some None \<Rightarrow> (w', Some (queryIndexInner e flt src (ix\<lparr>seq := index_seq r\<rparr>) (r_store r) q))))"

definition query :: "env \<Rightarrow> (io_op \<Rightarrow> jsval option) \<Rightarrow> source \<Rightarrow> world \<Rightarrow> viewspec \<Rightarrow> opts
    \<Rightarrow> event list \<Rightarrow> world \<times> (failure + result) option" where
  "query e flt src w spec q sched =
     (case spec of
        TempView f \<Rightarrow>
          (case checkQueryParseError e q (reduce_src f) of
             Some parseError \<Rightarrow> (w, Some (Inl (Failed parseError)))
           | None \<Rightarrow> (w, Some (viewQuery e src f q)))
      | NamedView designDocName viewName \<Rightarrow>
          (case checkQueryParseError e q None of
             Some parseError \<Rightarrow> (w, Some (Inl (Failed parseError)))
           | None \<Rightarrow>
               (case src_get src (JStr (''_design/'' @ designDocName)) of
                  Inl err \<Rightarrow> (w, Some (Inl (Failed err)))
                | Inr doc \<Rightarrow>
                    if get_field doc ''views'' = JUndefined \<or> get_field doc ''views'' = JNull
                    then (w, Some (Inl (Threw ''TypeError'')))
                    else
                      (let f = get_field (get_field doc ''views'') viewName
                       in if \<not> truthy f
                          then (w, Some (Inl (Failed (JObj [(''name'', JStr ''not_found''),
                                                           (''message'', JStr ''missing_named_view'')]))))
                          else
                            (case checkQueryParseError e q (string_field f ''reduce'') of
                               Some parseError \<Rightarrow> (w, Some (Inl (Failed parseError)))
                             | None \<Rightarrow>
                                 (case getIndex flt src w (to_string (get_field f ''map''))
                                         (string_field f ''reduce'') of
                                    Inl err \<Rightarrow> (w, Some (Inl (Failed err)))
                                  | Inr ix \<Rightarrow> query_index e flt src w ix q sched))))))"

text \<open>
  The reduce function that the view of a query is configured with: that of the inline view,
  or that of the named view of the design document when the document and the view exist.
\<close>

definition configured_reduce :: "source \<Rightarrow> viewspec \<Rightarrow> string option" where
  "configured_reduce src spec =
     (case spec of
        TempView f \<Rightarrow> reduce_src f
      | NamedView designDocName viewName \<Rightarrow>
          (case src_get src (JStr (''_design/'' @ designDocName)) of
             Inl err \<Rightarrow> None
           | Inr doc \<Rightarrow>
               if truthy (get_field (get_field doc ''views'') viewName)
               then string_field (get_field (get_field doc ''views'') viewName) ''reduce''
               else None))"

section \<open>The changes of an update run, its invariants, and example data\<close>

text \<open>
  What becomes of one change in a run. \<open>store_error\<close> is the error of the first of the
  four store operations of \<^verbatim>\<open>callMapFun\<close> that fails. The processing of a change fails
  with \<open>failure_of\<close>: nothing fails for a change that is skipped; otherwise what the user's
  functions throw, if it is truthy, or else the error of the store. A change is indexed when
  it is not skipped, nothing is thrown and no store operation fails: then its batch is
  written. \<open>persisted_seq\<close> is the sequence record after a list of changes: that of the
  last one indexed.

  \<open>run_inv\<close> relates the variables of a run: as long as no call is made the handle
  keeps its sequence number \<open>s0\<close>; an error is reported once and leaves it at \<open>s0\<close>;
  success is reported once, when the feed is complete and the queue is empty.
  \<open>prefix_inv\<close> says how far a run without error has come: the changes before the
  \<open>k\<close>-th are processed and none has failed, the others wait in the queue and the feed.
\<close>

definition store_error :: "(io_op \<Rightarrow> jsval option) \<Rightarrow> change \<Rightarrow> jsval option" where
  "store_error flt c =
     (case get_error flt (GetLastSeq (ch_seq c)) of Some err \<Rightarrow> Some err | None \<Rightarrow>
        (case get_error flt (GetMeta (ch_seq c)) of Some err \<Rightarrow> Some err | None \<Rightarrow>
           (case io_error flt (FetchOld (ch_seq c)) of Some err \<Rightarrow> Some err | None \<Rightarrow>
              io_error flt (BulkDocs (ch_seq c)))))"

definition skipped :: "index \<Rightarrow> change \<Rightarrow> bool" where
  "skipped ix c = (underscore_id (ch_id c) \<or> ch_seq c < seq ix)"






text \<open>
  Data for the examples: a collation of strings and of numbers, the identity as
  normalization, \<^verbatim>\<open>String\<close> as the encoding of composite keys, and the map function
  \<^verbatim>\<open>function (doc) { emit(doc._id, doc.n); }\<close>, which does not throw. A source lists its changes; its feed after \<open>since\<close> is the changes with a
  larger sequence number. The feed of \<open>ex_replay\<close> does not look at \<open>since\<close>: it
  delivers all its changes again.
\<close>

definition ex_collate :: "jsval \<Rightarrow> jsval \<Rightarrow> int" where
  "ex_collate a b =
     (case a of
        JStr s \<Rightarrow> (case b of JStr t \<Rightarrow> if s < t then - 1 else if t < s then 1 else 0 | _ \<Rightarrow> 0)
      | JNum m \<Rightarrow> (case b of JNum n \<Rightarrow> if m = n then 0 else if num_le m n then - 1 else 1 | _ \<Rightarrow> 0)
      | _ \<Rightarrow> 0)"

definition ex_env :: env where
  "ex_env = \<lparr>collate = ex_collate, normalizeKey = (\<lambda>v. v), toIndexableString = to_string,
             evalMap = (\<lambda>src doc. [(get_field doc ''_id'', get_field doc ''n'')]),
             evalReduce = (\<lambda>src ks vs rr. JNull), parseNumber = (\<lambda>s. NaN),
             throws = (\<lambda>m r doc. None)\<rparr>"

definition ex_change :: "string \<Rightarrow> int \<Rightarrow> jsval \<Rightarrow> change" where
  "ex_change i s n =
     \<lparr>ch_id = i, ch_seq = s, ch_doc = JObj [(''_id'', JStr i), (''n'', n)], ch_deleted = False\<rparr>"

definition ex_source :: "change list \<Rightarrow> source" where
  "ex_source cs =
     \<lparr>db_name = Inr ''db'', src_get = (\<lambda>i. Inl (JObj [(''name'', JStr ''not_found'')])),
      src_changes = (\<lambda>since. filter (\<lambda>c. since < ch_seq c) cs)\<rparr>"


definition ex_index :: "string option \<Rightarrow> int \<Rightarrow> index" where
  "ex_index r s =
     \<lparr>name = ''db-mrview-0'', mapFun = ''function (doc) { emit(doc._id, doc.n); }'',
      reduceFun = r, seq = s\<rparr>"

definition ex_view :: "string option \<Rightarrow> viewfun" where
  "ex_view r = \<lparr>map_src = ''function (doc) { emit(doc._id, doc.n); }'', reduce_src = r\<rparr>"

definition ex_store :: "int \<Rightarrow> store" where
  "ex_store s = \<lparr>kvs = [], metas = [], lastSeqDoc = Some s\<rparr>"

definition ex_opts :: opts where
  "ex_opts = \<lparr>startkey = None, endkey = None, key = None, keys = None, descending = False,
              limit = Absent, skip = 0, include_docs = False, reduce = None, group = False,
              group_level = False, stale = None\<rparr>"

definition ex_row :: "string \<Rightarrow> jsval \<Rightarrow> jsval option \<Rightarrow> row" where
  "ex_row i n ro = \<lparr>row_id = i, row_key = JStr i, row_value = n, reduceOutput = ro, row_doc = None\<rparr>"

definition ex_written :: "int \<Rightarrow> store" where
  \<comment> \<open>the store after the document \<^verbatim>\<open>{_id: "a", n: 1}\<close> is indexed at sequence number \<open>s\<close>\<close>
  "ex_written s =
     \<lparr>kvs = [(''a,a,1,0'', \<lparr>kv_value = ex_row ''a'' (JNum (Fin 1)) None, kv_deleted = False\<rparr>)],
      metas = [(''a'', [''a,a,1,0''])], lastSeqDoc = Some s\<rparr>"

definition ex_fault :: "io_op \<Rightarrow> jsval option" where
  \<comment> \<open>the store refuses the batch of the change with sequence number 7\<close>
  "ex_fault op = (if op = BulkDocs 7 then Some (JStr ''disk full'') else None)"

definition ex_fault_6 :: "io_op \<Rightarrow> jsval option" where
  \<comment> \<open>the store refuses the batch of the change with sequence number 6\<close>
  "ex_fault_6 op = (if op = BulkDocs 6 then Some (JStr ''disk full'') else None)"

definition ex_bad_output :: jsval where
  \<comment> \<open>what \<^verbatim>\<open>callMapFun\<close> stores as \<^verbatim>\<open>reduceOutput\<close> for \<^verbatim>\<open>emit("a", "x")\<close> under \<^verbatim>\<open>_stats\<close>\<close>
  "ex_bad_output = builtin_stats (\<lambda>s. NaN) (JArr [JStr ''a'']) [JStr ''x''] (JBool False)"

definition ex_stats_store :: store where
  "ex_stats_store =
     \<lparr>kvs = [(''a,a,x,0'', \<lparr>kv_value = ex_row ''a'' (JStr ''x'') (Some ex_bad_output), kv_deleted = False\<rparr>)],
      metas = [(''a'', [''a,a,x,0''])], lastSeqDoc = Some 1\<rparr>"

definition ex_stats1 :: "int \<Rightarrow> jsval" where
  \<comment> \<open>\<^verbatim>\<open>_stats\<close> of the single value \<open>n\<close>\<close>
  "ex_stats1 n = JObj [(''sum'', JNum (Fin n)), (''min'', JNum (Fin n)), (''max'', JNum (Fin n)),
                       (''count'', JNum (Fin 1)), (''sumsqr'', JNum (Fin (n * n)))]"

definition ex_stats_two :: store where
  \<comment> \<open>the index of \<^verbatim>\<open>{_id: "a", n: 1}\<close> and \<^verbatim>\<open>{_id: "b", n: 3}\<close> under \<^verbatim>\<open>_stats\<close>\<close>
  "ex_stats_two =
     \<lparr>kvs = [(''a,a,1,0'', \<lparr>kv_value = ex_row ''a'' (JNum (Fin 1)) (Some (ex_stats1 1)), kv_deleted = False\<rparr>),
             (''b,b,3,0'', \<lparr>kv_value = ex_row ''b'' (JNum (Fin 3)) (Some (ex_stats1 3)), kv_deleted = False\<rparr>)],
      metas = [(''a'', [''a,a,1,0'']), (''b'', [''b,b,3,0''])], lastSeqDoc = Some 2\<rparr>"

definition ex_sum_store :: store where
  "ex_sum_store =
     \<lparr>kvs = [(''a,a,1,0'', \<lparr>kv_value = ex_row ''a'' (JNum (Fin 1)) (Some (JNum (Fin 1))), kv_deleted = False\<rparr>)],
      metas = [(''a'', [''a,a,1,0''])], lastSeqDoc = Some 1\<rparr>"

section \<open>Integers that are added and multiplied exactly\<close>

lemma round_mantissa_exact: "m \<le> 2 ^ 53 \<Longrightarrow> round_mantissa m = m"
proof (cases "m < 2 ^ 53")
  case True
  then have "low_bits m = 0" by (simp add: low_bits.simps)
  then show ?thesis by (simp add: round_mantissa_def)
next
  case False
  assume "m \<le> 2 ^ 53"
  with False have m: "m = 2 ^ 53" by simp
  have "low_bits (2 ^ 53) = 1" by (simp add: low_bits.simps)
  then show ?thesis unfolding m by (simp add: round_mantissa_def)
qed

lemma round_double_exact [simp]: "\<bar>n\<bar> \<le> 9007199254740992 \<Longrightarrow> round_double n = Fin n"
proof -
  assume a: "\<bar>n\<bar> \<le> 9007199254740992"
  then have "\<bar>n\<bar> \<le> 2 ^ 53" by simp
  then have r: "round_mantissa \<bar>n\<bar> = \<bar>n\<bar>" by (rule round_mantissa_exact)
  have "\<bar>n\<bar> \<le> 2 ^ 53" using a by simp
  also have "(2::int) ^ 53 < 2 ^ 1024" by (rule power_strict_increasing) simp_all
  finally have "\<not> 2 ^ 1024 \<le> \<bar>n\<bar>" by simp
  then show ?thesis unfolding round_double_def r Let_def by (simp del: power_numeral)
qed

lemma round_double_past_2_53:
  "round_double (9007199254740992 + 1) = Fin 9007199254740992"
  by (simp add: round_double_def round_mantissa_def low_bits.simps)

section \<open>Facts about the example data\<close>

lemma ex_env_fields:
  "collate ex_env = ex_collate" "normalizeKey ex_env = (\<lambda>v. v)" "toIndexableString ex_env = to_string"
  "evalMap ex_env = (\<lambda>src doc. [(get_field doc ''_id'', get_field doc ''n'')])"
  "parseNumber ex_env = (\<lambda>s. NaN)"
  "throws ex_env = (\<lambda>m r doc. None)"
  by (simp_all add: ex_env_def)

lemma ex_opts_fields:
  "startkey ex_opts = None" "endkey ex_opts = None" "key ex_opts = None" "keys ex_opts = None"
  "descending ex_opts = False" "limit ex_opts = Absent" "skip ex_opts = 0"
  "include_docs ex_opts = False" "reduce ex_opts = None" "group ex_opts = False"
  "group_level ex_opts = False" "stale ex_opts = None"
  by (simp_all add: ex_opts_def)

lemma ex_index_fields:
  "name (ex_index r s) = ''db-mrview-0''" "reduceFun (ex_index r s) = r" "seq (ex_index r s) = s"
  "mapFun (ex_index r s) = ''function (doc) { emit(doc._id, doc.n); }''"
  by (simp_all add: ex_index_def)

lemma ex_view_fields:
  "map_src (ex_view r) = ''function (doc) { emit(doc._id, doc.n); }''" "reduce_src (ex_view r) = r"
  by (simp_all add: ex_view_def)

lemma ex_change_fields:
  "ch_id (ex_change i s n) = i" "ch_seq (ex_change i s n) = s" "\<not> ch_deleted (ex_change i s n)"
  by (simp_all add: ex_change_def)

section \<open>Properties of the built-in reducers\<close>

lemma abs_sum_list: "\<bar>sum_list ns\<bar> \<le> (\<Sum>n\<leftarrow>ns. \<bar>n\<bar>)" for ns :: "int list"
  by (induction ns) auto

lemma foldl_js_add_ints:
  "\<bar>a\<bar> + (\<Sum>n\<leftarrow>ns. \<bar>n\<bar>) \<le> 9007199254740992 \<Longrightarrow>
   foldl js_add (JNum (Fin a)) (map (\<lambda>n. JNum (Fin n)) ns) = JNum (Fin (a + sum_list ns))"
proof (induction ns arbitrary: a)
  case Nil
  then show ?case by simp
next
  case (Cons n ns)
  have "\<bar>a + n\<bar> \<le> \<bar>a\<bar> + \<bar>n\<bar>" by simp
  moreover have "0 \<le> (\<Sum>n\<leftarrow>ns. \<bar>n\<bar>)" by (rule sum_list_nonneg) auto
  ultimately have small: "\<bar>a + n\<bar> \<le> 9007199254740992"
    and rest: "\<bar>a + n\<bar> + (\<Sum>n\<leftarrow>ns. \<bar>n\<bar>) \<le> 9007199254740992"
    using Cons.prems by simp_all
  have "js_add (JNum (Fin a)) (JNum (Fin n)) = JNum (Fin (a + n))"
    using small by (simp add: js_add_def stringish_def to_number_def)
  with Cons.IH [OF rest] show ?case by (simp add: add.assoc)
qed

text \<open>
  Claim C8, as amended. On a list of integers whose absolute values add up to at most
  \<open>2^53\<close>, \<^verbatim>\<open>_sum\<close> returns their sum, whatever the keys and the \<^verbatim>\<open>rereduce\<close>
  flag are: every addition of \<^verbatim>\<open>sum\<close> is exact. Nothing is promised for arrays, nor for
  numbers beyond that bound.
\<close>

theorem builtin_sum_numbers:
  assumes "(\<Sum>n\<leftarrow>ns. \<bar>n\<bar>) \<le> 2 ^ 53"
  shows "builtin_sum ks (map (\<lambda>n. JNum (Fin n)) ns) rr = JNum (Fin (sum_list ns))"
  using foldl_js_add_ints [of 0 ns] assms by (simp add: builtin_sum_def sum_js_def)

theorem builtin_sum_numbers_witness:
  "(\<Sum>n\<leftarrow>[1, 2, - 3, 9007199254740986]. \<bar>n\<bar>) \<le> (2 ^ 53 :: int)
   \<and> builtin_sum JNull [JNum (Fin 1), JNum (Fin 2), JNum (Fin (- 3)), JNum (Fin 9007199254740986)]
         (JBool False) = JNum (Fin 9007199254740986)"
  using builtin_sum_numbers [of "[1, 2, - 3, 9007199254740986]" JNull "JBool False"] by simp

text \<open>
  Claim C8, as stated, fails on arrays: \<^verbatim>\<open>0 + [1,2]\<close> is the string \<^verbatim>\<open>"01,2"\<close>, so
  \<^verbatim>\<open>_sum\<close> of \<^verbatim>\<open>[[1,2],[3,4]]\<close> is the string \<^verbatim>\<open>"01,23,4"\<close> and not the array
  \<^verbatim>\<open>[4,6]\<close>. On numbers it fails beyond \<open>2^53\<close>, where not every integer is a double:
  \<^verbatim>\<open>_sum\<close> of \<open>2^53 = 9007199254740992\<close> and \<open>1\<close> is \<open>2^53\<close>.
\<close>

theorem builtin_sum_arrays_counterexample:
  "builtin_sum JNull [JArr [JNum (Fin 1), JNum (Fin 2)], JArr [JNum (Fin 3), JNum (Fin 4)]] (JBool False)
     = JStr ''01,23,4''
   \<and> builtin_sum JNull [JArr [JNum (Fin 1), JNum (Fin 2)], JArr [JNum (Fin 3), JNum (Fin 4)]] (JBool False)
     \<noteq> JArr [JNum (Fin 4), JNum (Fin 6)]
   \<and> builtin_sum JNull [JNum (Fin 9007199254740992), JNum (Fin 1)] (JBool False)
     = JNum (Fin 9007199254740992)
   \<and> builtin_sum JNull [JNum (Fin 9007199254740992), JNum (Fin 1)] (JBool False)
     \<noteq> JNum (Fin (9007199254740992 + 1))"
  using round_double_past_2_53
  by (simp add: builtin_sum_def sum_js_def js_add_def stringish_def to_number_def
      string_of_int_def string_of_nat.simps digit_def)

lemma builtin_sum_rereduce:
  assumes "(\<Sum>n\<leftarrow>ms. \<bar>n\<bar>) + (\<Sum>n\<leftarrow>ns. \<bar>n\<bar>) \<le> 9007199254740992"
  shows "builtin_sum JNull
     [builtin_sum k1 (map (\<lambda>n. JNum (Fin n)) ms) (JBool False),
      builtin_sum k2 (map (\<lambda>n. JNum (Fin n)) ns) (JBool False)] (JBool True)
   = builtin_sum k (map (\<lambda>n. JNum (Fin n)) (ms @ ns)) (JBool False)"
proof -
  have nn: "0 \<le> (\<Sum>n\<leftarrow>ms. \<bar>n\<bar>)" "0 \<le> (\<Sum>n\<leftarrow>ns. \<bar>n\<bar>)"
    by (rule sum_list_nonneg, auto)+
  have m: "foldl js_add (JNum (Fin 0)) (map (\<lambda>n. JNum (Fin n)) ms) = JNum (Fin (sum_list ms))"
    using foldl_js_add_ints [of 0 ms] assms nn by simp
  have n: "foldl js_add (JNum (Fin 0)) (map (\<lambda>n. JNum (Fin n)) ns) = JNum (Fin (sum_list ns))"
    using foldl_js_add_ints [of 0 ns] assms nn by simp
  have mn: "foldl js_add (JNum (Fin 0)) (map (\<lambda>n. JNum (Fin n)) (ms @ ns))
              = JNum (Fin (sum_list ms + sum_list ns))"
    using foldl_js_add_ints [of 0 "ms @ ns"] assms by simp
  have two: "foldl js_add (JNum (Fin 0)) (map (\<lambda>n. JNum (Fin n)) [sum_list ms, sum_list ns])
              = JNum (Fin (sum_list ms + sum_list ns))"
    using foldl_js_add_ints [of 0 "[sum_list ms, sum_list ns]"] assms
      abs_sum_list [of ms] abs_sum_list [of ns] by simp
  show ?thesis
    unfolding builtin_sum_def sum_js_def m n mn using two by simp
qed

text \<open>
  Claim C5 fails on the code for \<^verbatim>\<open>_count\<close> and for \<^verbatim>\<open>_stats\<close> (for \<^verbatim>\<open>_sum\<close> it
  holds as long as the additions are exact, lemma \<open>builtin_sum_rereduce\<close>). \<^verbatim>\<open>_count\<close> returns \<^verbatim>\<open>values.length\<close>
  whatever \<^verbatim>\<open>rereduce\<close> is: the partial counts \<open>1\<close> and \<open>2\<close> of the values
  \<open>[7]\<close> and \<open>[8, 9]\<close> are rereduced to \<open>2\<close>, while the count of \<open>[7, 8, 9]\<close> is
  \<open>3\<close>. \<^verbatim>\<open>_stats\<close> rereduces \<^verbatim>\<open>sumsqr\<close> by summing the squares of the partial
  sums of squares: the values \<open>[1]\<close> and \<open>[3]\<close> give \<open>1 * 1 + 9 * 9 = 82\<close>, while
  \<open>[1, 3]\<close> gives \<open>10\<close>.
\<close>

theorem rereduce_count_stats_diverge:
  "builtin_count JNull
     [builtin_count JNull [JNum (Fin 7)] (JBool False),
      builtin_count JNull [JNum (Fin 8), JNum (Fin 9)] (JBool False)] (JBool True) = JNum (Fin 2)
   \<and> builtin_count JNull [JNum (Fin 7), JNum (Fin 8), JNum (Fin 9)] (JBool False) = JNum (Fin 3)
   \<and> get_field (builtin_stats (\<lambda>s. NaN) JNull
         [builtin_stats (\<lambda>s. NaN) JNull [JNum (Fin 1)] (JBool False),
          builtin_stats (\<lambda>s. NaN) JNull [JNum (Fin 3)] (JBool False)] (JBool True)) ''sumsqr''
       = JNum (Fin 82)
   \<and> get_field (builtin_stats (\<lambda>s. NaN) JNull [JNum (Fin 1), JNum (Fin 3)] (JBool False)) ''sumsqr''
       = JNum (Fin 10)"
  by (simp add: builtin_count_def builtin_stats_def truthy_def stats_merge_def get_field_def
      set_field_def sumsqr_def sum_js_def js_add_def stringish_def to_number_def
      math_min_def math_max_def num_min_def num_max_def)

text \<open>
  The defect of \<^verbatim>\<open>_stats\<close> shows in a query on a persisted view. The updater stores
  \<^verbatim>\<open>_stats\<close> of each row by itself; for the documents \<^verbatim>\<open>{_id: "a", n: 1}\<close> and
  \<^verbatim>\<open>{_id: "b", n: 3}\<close> the index is \<open>ex_stats_two\<close>, and the query without options
  rereduces the two stored outputs into one group whose \<^verbatim>\<open>sumsqr\<close> is \<open>82\<close>.
\<close>

lemma abs_le_square: "\<bar>n\<bar> \<le> n * n" for n :: int
proof (cases "n = 0")
  case True
  then show ?thesis by simp
next
  case False
  then have "1 \<le> \<bar>n\<bar>" by simp
  then have "\<bar>n\<bar> * 1 \<le> \<bar>n\<bar> * \<bar>n\<bar>" by (rule mult_left_mono) simp
  then show ?thesis by (simp add: abs_mult_self_eq)
qed

lemma ex_stats_single:
  assumes "n * n \<le> 9007199254740992"
  shows "reduceFun_of ex_env ''_stats'' ks [JNum (Fin n)] (JBool False) = ex_stats1 n"
proof -
  have "\<bar>n\<bar> \<le> 9007199254740992" using abs_le_square [of n] assms by simp
  moreover have "\<bar>n * n\<bar> \<le> 9007199254740992" using assms by simp
  ultimately show ?thesis
    by (simp add: reduceFun_of_def builtInReduce_def builtin_stats_def truthy_def sum_js_def js_add_def
      stringish_def to_number_def math_min_def math_max_def num_min_def num_max_def sumsqr_def
      ex_stats1_def)
qed

lemma ex_callMapFun_stats_a:
  "callMapFun ex_env (\<lambda>op. None) (ex_index (Some ''_stats'') 0) (ex_store 0) (ex_change ''a'' 1 (JNum (Fin 1)))
   = Inr \<lparr>kvs = [(''a,a,1,0'', \<lparr>kv_value = ex_row ''a'' (JNum (Fin 1)) (Some (ex_stats1 1)), kv_deleted = False\<rparr>)],
      metas = [(''a'', [''a,a,1,0''])], lastSeqDoc = Some 1\<rparr>"
  by (simp add: callMapFun_def ex_index_fields ex_change_def ex_row_def ex_stats_single ex_store_def
      get_error_def get_missing_def io_error_def indexableKeysToKeyValues_def indexableStringKey_def
      get_field_def ex_env_fields string_of_int_def string_of_nat.simps digit_def
      batch_of_def fetch_old_def bulkDocs_def)

lemma ex_callMapFun_stats_b:
  "callMapFun ex_env (\<lambda>op. None) (ex_index (Some ''_stats'') 0)
      \<lparr>kvs = [(''a,a,1,0'', \<lparr>kv_value = ex_row ''a'' (JNum (Fin 1)) (Some (ex_stats1 1)), kv_deleted = False\<rparr>)],
      metas = [(''a'', [''a,a,1,0''])], lastSeqDoc = Some 1\<rparr> (ex_change ''b'' 2 (JNum (Fin 3)))
   = Inr ex_stats_two"
  by (simp add: callMapFun_def Let_def ex_index_fields ex_change_def ex_row_def ex_stats_single
      ex_stats_two_def get_error_def get_missing_def io_error_def indexableKeysToKeyValues_def
      indexableStringKey_def get_field_def ex_env_fields string_of_int_def string_of_nat.simps
      digit_def batch_of_def fetch_old_def bulkDocs_def)

lemma ex_rereduce_two:
  "reduceFun_of ex_env ''_stats'' JNull [ex_stats1 1, ex_stats1 3] (JBool True)
   = JObj [(''sum'', JNum (Fin 4)), (''min'', JNum (Fin 1)), (''max'', JNum (Fin 3)),
           (''count'', JNum (Fin 2)), (''sumsqr'', JNum (Fin 82))]"
  by (simp add: reduceFun_of_def builtInReduce_def builtin_stats_def truthy_def stats_merge_def
      get_field_def set_field_def js_add_def stringish_def to_number_def num_min_def num_max_def
      sumsqr_def ex_stats1_def)

lemma ex_stats_query:
  "queryIndexInner ex_env (\<lambda>op. None) (ex_source []) (ex_index (Some ''_stats'') 2) ex_stats_two ex_opts
   = Inr \<lparr>total_rows = None, offset = None,
          rows = [Group JNull (JObj [(''sum'', JNum (Fin 4)), (''min'', JNum (Fin 1)), (''max'', JNum (Fin 3)),
                                     (''count'', JNum (Fin 2)), (''sumsqr'', JNum (Fin 82))])]\<rparr>"
proof -
  have l: "live ex_stats_two = kvs ex_stats_two"
    by (simp add: live_def ex_stats_two_def)
  have a: "allDocs ex_stats_two (normal_indexOpts ex_env True ex_opts) = (2, kvs ex_stats_two)"
    by (simp add: allDocs_def l normal_indexOpts_def ex_opts_fields in_range_def)
       (simp add: ex_stats_two_def)
  have g: "add_to_groups ex_env False stored_output
             (add_to_groups ex_env False stored_output [] (ex_row ''a'' (JNum (Fin 1)) (Some (ex_stats1 1))))
             (ex_row ''b'' (JNum (Fin 3)) (Some (ex_stats1 3)))
           = [\<lparr>pg_key = [(JNull, ''a''), (JNull, ''b'')], pg_value = [ex_stats1 1, ex_stats1 3]\<rparr>]"
    by (simp add: add_to_groups_def first_key_def ex_env_fields ex_collate_def stored_output_def ex_row_def)
  have r: "reduceIndex ex_env (ex_index (Some ''_stats'') 2)
             [ex_row ''a'' (JNum (Fin 1)) (Some (ex_stats1 1)), ex_row ''b'' (JNum (Fin 3)) (Some (ex_stats1 3))]
             ex_opts
           = Inr \<lparr>total_rows = None, offset = None,
          rows = [Group JNull (JObj [(''sum'', JNum (Fin 4)), (''min'', JNum (Fin 1)), (''max'', JNum (Fin 3)),
                                     (''count'', JNum (Fin 2)), (''sumsqr'', JNum (Fin 82))])]\<rparr>"
    unfolding reduceIndex_def
    by (simp add: ex_opts_fields g ex_index_fields ex_rereduce_two is_reduce_error_def get_field_def
        truthy_def first_key_def slice_def)
  show ?thesis
    unfolding queryIndexInner_def
    by (simp add: ex_opts_fields ex_index_fields has_reduce_def fetchFromIndex_def io_error_def a
        onMapResultsReady_def r [unfolded ex_index_fields] ex_stats_two_def [THEN arg_cong [where f = kvs]])
qed

section \<open>Properties of the scan bounds\<close>

lemma queryIndexInner_normal_scan:
  "keys q = None \<Longrightarrow>
   queryIndexInner e flt src ix st q =
     (let sr = (has_reduce (reduceFun ix) \<and> reduce q \<noteq> Some (JBool False))
      in case fetchFromIndex flt st (normal_indexOpts e sr q) of
           Inl f \<Rightarrow> Inl f
         | Inr (totalRows, results) \<Rightarrow> onMapResultsReady e src ix q sr totalRows results)"
  by (simp add: queryIndexInner_def Let_def)

lemma normal_indexOpts_fields:
  "ix_descending (normal_indexOpts e sr q) = descending q"
  "ix_startkey (normal_indexOpts e sr q) =
       map_option (\<lambda>b. toIndexableString e
                     (if descending q then JArr [b, JObj [], JObj [], JObj []] else JArr [b]))
         (case key q of Some k \<Rightarrow> Some k | None \<Rightarrow> startkey q)"
  "ix_endkey (normal_indexOpts e sr q) =
       map_option (\<lambda>b. toIndexableString e
                     (if descending q then JArr [b] else JArr [b, JObj [], JObj [], JObj []]))
         (case key q of Some k \<Rightarrow> Some k | None \<Rightarrow> endkey q)"
  "ix_limit (normal_indexOpts e sr q) =
     (if sr then None else case limit q of Limit n \<Rightarrow> Some n | _ \<Rightarrow> None)"
  "ix_skip (normal_indexOpts e sr q) = (if sr then None else Some (skip q))"
  by (auto simp: normal_indexOpts_def Let_def split: option.splits)

text \<open>
  Claim C2. A query without \<^verbatim>\<open>keys\<close> on a persisted view makes one scan of the secondary
  store, and its answer is made from the rows of that scan. The scan is handed the direction
  of the query. Ascending, a \<^verbatim>\<open>startkey\<close> \<open>b\<close> is handed over as
  \<^verbatim>\<open>toIndexableString([b])\<close> and an \<^verbatim>\<open>endkey\<close> \<open>b\<close> as
  \<^verbatim>\<open>toIndexableString([b, {}, {}, {}])\<close>; descending, the two encodings change
  sides. A \<^verbatim>\<open>key\<close> option stands for both bounds and is encoded the same way. The
  limit and the number of rows to skip are handed over only when no reduction is in effect.
\<close>

theorem queryIndexInner_scan_bounds:
  assumes "keys q = None"
  shows "queryIndexInner e flt src ix st q =
     (let sr = (has_reduce (reduceFun ix) \<and> reduce q \<noteq> Some (JBool False));
          lower = (\<lambda>b. toIndexableString e (JArr [b]));
          upper = (\<lambda>b. toIndexableString e (JArr [b, JObj [], JObj [], JObj []]));
          io = \<lparr>ix_startkey = map_option (if descending q then upper else lower)
                                (case key q of Some k \<Rightarrow> Some k | None \<Rightarrow> startkey q),
                ix_endkey = map_option (if descending q then lower else upper)
                              (case key q of Some k \<Rightarrow> Some k | None \<Rightarrow> endkey q),
                ix_descending = descending q,
                ix_limit = (if sr then None else case limit q of Limit n \<Rightarrow> Some n | _ \<Rightarrow> None),
                ix_skip = (if sr then None else Some (skip q))\<rparr>
      in case io_error flt (Scan io) of
           Some err \<Rightarrow> Inl (Failed err)
         | None \<Rightarrow> onMapResultsReady e src ix q sr (fst (allDocs st io))
                     (map (\<lambda>(i, d). kv_value d) (snd (allDocs st io))))"
proof -
  define sr where "sr = (has_reduce (reduceFun ix) \<and> reduce q \<noteq> Some (JBool False))"
  have io: "normal_indexOpts e sr q =
      \<lparr>ix_startkey = map_option (if descending q then (\<lambda>b. toIndexableString e (JArr [b, JObj [], JObj [], JObj []]))
                                  else (\<lambda>b. toIndexableString e (JArr [b])))
                                (case key q of Some k \<Rightarrow> Some k | None \<Rightarrow> startkey q),
       ix_endkey = map_option (if descending q then (\<lambda>b. toIndexableString e (JArr [b]))
                                else (\<lambda>b. toIndexableString e (JArr [b, JObj [], JObj [], JObj []])))
                              (case key q of Some k \<Rightarrow> Some k | None \<Rightarrow> endkey q),
       ix_descending = descending q,
       ix_limit = (if sr then None else case limit q of Limit n \<Rightarrow> Some n | _ \<Rightarrow> None),
       ix_skip = (if sr then None else Some (skip q))\<rparr>"
    by (rule indexOpts.equality) (simp_all add: normal_indexOpts_fields)
  show ?thesis
    unfolding queryIndexInner_normal_scan [OF assms] Let_def sr_def [symmetric] io fetchFromIndex_def
    by (simp split: option.splits)
qed

lemma ex_live: "live (ex_written s) = kvs (ex_written s)"
  by (simp add: live_def ex_written_def)

theorem queryIndexInner_scan_bounds_witness:
  "keys (ex_opts\<lparr>startkey := Some (JStr ''a'')\<rparr>) = None
   \<and> queryIndexInner ex_env (\<lambda>op. None) (ex_source []) (ex_index None 1) (ex_written 1)
        (ex_opts\<lparr>startkey := Some (JStr ''a'')\<rparr>)
     = Inr \<lparr>total_rows = Some 1, offset = Some 0, rows = [Row (ex_row ''a'' (JNum (Fin 1)) None)]\<rparr>
   \<and> keys (ex_opts\<lparr>startkey := Some (JStr ''b''), descending := True\<rparr>) = None
   \<and> queryIndexInner ex_env (\<lambda>op. None) (ex_source []) (ex_index None 1) (ex_written 1)
        (ex_opts\<lparr>startkey := Some (JStr ''b''), descending := True\<rparr>)
     = Inr \<lparr>total_rows = Some 1, offset = Some 0, rows = [Row (ex_row ''a'' (JNum (Fin 1)) None)]\<rparr>
   \<and> keys (ex_opts\<lparr>endkey := Some (JStr ''b''), descending := True\<rparr>) = None
   \<and> queryIndexInner ex_env (\<lambda>op. None) (ex_source []) (ex_index None 1) (ex_written 1)
        (ex_opts\<lparr>endkey := Some (JStr ''b''), descending := True\<rparr>)
     = Inr \<lparr>total_rows = Some 1, offset = Some 0, rows = []\<rparr>
   \<and> keys (ex_opts\<lparr>key := Some (JStr ''b'')\<rparr>) = None
   \<and> queryIndexInner ex_env (\<lambda>op. None) (ex_source []) (ex_index None 1) (ex_written 1)
        (ex_opts\<lparr>key := Some (JStr ''b'')\<rparr>)
     = Inr \<lparr>total_rows = Some 1, offset = Some 0, rows = []\<rparr>"
proof -
  have k: "keys (ex_opts\<lparr>startkey := Some (JStr ''a'')\<rparr>) = None"
    "keys (ex_opts\<lparr>startkey := Some (JStr ''b''), descending := True\<rparr>) = None"
    "keys (ex_opts\<lparr>endkey := Some (JStr ''b''), descending := True\<rparr>) = None"
    "keys (ex_opts\<lparr>key := Some (JStr ''b'')\<rparr>) = None"
    by (simp_all add: ex_opts_fields)
  have w: "kvs (ex_written 1) = [(''a,a,1,0'', \<lparr>kv_value = ex_row ''a'' (JNum (Fin 1)) None, kv_deleted = False\<rparr>)]"
    by (simp add: ex_written_def)
  show ?thesis
    using queryIndexInner_scan_bounds [OF k(1), of ex_env "\<lambda>op. None" "ex_source []" "ex_index None 1" "ex_written 1"]
      queryIndexInner_scan_bounds [OF k(2), of ex_env "\<lambda>op. None" "ex_source []" "ex_index None 1" "ex_written 1"]
      queryIndexInner_scan_bounds [OF k(3), of ex_env "\<lambda>op. None" "ex_source []" "ex_index None 1" "ex_written 1"]
      queryIndexInner_scan_bounds [OF k(4), of ex_env "\<lambda>op. None" "ex_source []" "ex_index None 1" "ex_written 1"]
    by (simp add: Let_def ex_opts_fields ex_index_fields ex_env_fields has_reduce_def io_error_def
        allDocs_def ex_live w in_range_def onMapResultsReady_def ex_row_def)
qed

section \<open>Properties of the validation\<close>

lemma QueryParseError_fields:
  "get_field (QueryParseError m) ''name'' = JStr ''query_parse_error''"
  "get_field (QueryParseError m) ''status'' = JNum (Fin 400)"
  by (simp_all add: QueryParseError_def get_field_def)

lemma no_views_no_view: "v = JUndefined \<or> v = JNull \<Longrightarrow> \<not> truthy (get_field v n)"
  by (auto simp: get_field_def truthy_def)

text \<open>
  Claim C6. A query whose key range is inverted (both bounds set and, after the swap for
  \<^verbatim>\<open>descending\<close>, \<^verbatim>\<open>collate(start, end) > 0\<close>), and a query with \<^verbatim>\<open>include_docs\<close>
  on a view whose reduce function is in use, is answered with a \<^verbatim>\<open>QueryParseError\<close>,
  of name \<^verbatim>\<open>query_parse_error\<close> and status \<open>400\<close>. The answer is the same whatever the
  stores hold, whichever operation would fail and however an update would run, and the
  stores are as they were: no index is opened, updated or scanned.
\<close>

theorem query_parse_error:
  assumes "inverted_range e q
           \<or> (has_reduce (configured_reduce src spec) \<and> reduce q \<noteq> Some (JBool False) \<and> include_docs q)"
  shows "\<exists>message. query e flt src w spec q sched = (w, Some (Inl (Failed (QueryParseError message))))
           \<and> get_field (QueryParseError message) ''name'' = JStr ''query_parse_error''
           \<and> get_field (QueryParseError message) ''status'' = JNum (Fin 400)"
proof (cases "inverted_range e q")
  case True
  then show ?thesis
    by (cases spec) (auto simp: query_def checkQueryParseError_def QueryParseError_fields)
next
  case False
  with assms have h: "has_reduce (configured_reduce src spec)" "reduce q \<noteq> Some (JBool False)" "include_docs q"
    by simp_all
  show ?thesis
  proof (cases spec)
    case (TempView f)
    with h False show ?thesis
      by (auto simp: query_def checkQueryParseError_def configured_reduce_def QueryParseError_fields)
  next
    case (NamedView d v)
    from h(1) NamedView obtain doc where doc: "src_get src (JStr (''_design/'' @ d)) = Inr doc"
      and f: "truthy (get_field (get_field doc ''views'') v)"
      and r: "has_reduce (string_field (get_field (get_field doc ''views'') v) ''reduce'')"
      by (auto simp: configured_reduce_def has_reduce_def split: sum.splits if_splits)
    from f no_views_no_view [of "get_field doc ''views''" v]
    have nv: "get_field doc ''views'' \<noteq> JUndefined" "get_field doc ''views'' \<noteq> JNull" by auto
    show ?thesis using NamedView False h doc f r nv
      by (auto simp: query_def checkQueryParseError_def has_reduce_def QueryParseError_fields Let_def)
  qed
qed

lemma ex_inverted:
  "inverted_range ex_env (ex_opts\<lparr>startkey := Some (JStr ''b''), endkey := Some (JStr ''a'')\<rparr>)"
  by (simp add: inverted_range_def ex_opts_fields ex_env_def ex_collate_def)

lemma ex_reduce_docs:
  "has_reduce (configured_reduce (ex_source []) (TempView (ex_view (Some ''_sum''))))
   \<and> reduce (ex_opts\<lparr>include_docs := True\<rparr>) \<noteq> Some (JBool False)
   \<and> include_docs (ex_opts\<lparr>include_docs := True\<rparr>)"
  by (simp add: configured_reduce_def ex_view_def has_reduce_def ex_opts_fields)

theorem query_parse_error_witness:
  "(\<exists>message.
      query ex_env (\<lambda>op. None) (ex_source []) (\<lambda>n. ex_store 0) (NamedView ''d'' ''v'')
        (ex_opts\<lparr>startkey := Some (JStr ''b''), endkey := Some (JStr ''a'')\<rparr>) []
      = (\<lambda>n. ex_store 0, Some (Inl (Failed (QueryParseError message)))))
   \<and> (\<exists>message.
      query ex_env (\<lambda>op. None) (ex_source []) (\<lambda>n. ex_store 0) (TempView (ex_view (Some ''_sum'')))
        (ex_opts\<lparr>include_docs := True\<rparr>) []
      = (\<lambda>n. ex_store 0, Some (Inl (Failed (QueryParseError message)))))"
  using query_parse_error [OF disjI1 [OF ex_inverted], of "\<lambda>op. None" "ex_source []" "\<lambda>n. ex_store 0"
      "NamedView ''d'' ''v''" "[]"]
    query_parse_error [OF disjI2 [OF ex_reduce_docs], of ex_env "\<lambda>op. None" "\<lambda>n. ex_store 0" "[]"]
  by blast

section \<open>Properties of the query results\<close>

lemma rereduce_groups_all_groups:
  "rereduce_groups e src gs err = Inr (err', out) \<Longrightarrow> \<forall>x\<in>set out. \<exists>k v. x = Group k v"
  by (induction gs arbitrary: err err' out)
     (auto simp: Let_def split: if_splits sum.splits prod.splits)

lemma reduce_groups_all_groups:
  "reduce_groups e src gs err = Inr (err', out) \<Longrightarrow> \<forall>x\<in>set out. \<exists>k v. x = Group k v"
  by (induction gs arbitrary: err err' out)
     (auto simp: Let_def split: if_splits sum.splits prod.splits)

lemma set_slice: "set (slice q xs) \<subseteq> set xs"
  by (auto simp: slice_def split: limit_option.splits dest: in_set_takeD in_set_dropD)

lemma reduceIndex_shape:
  "reduceIndex e ix results q = Inr res \<Longrightarrow>
     total_rows res = None \<and> offset res = None \<and> (\<forall>x\<in>set (rows res). \<exists>k v. x = Group k v)"
  using set_slice
  by (fastforce simp: reduceIndex_def Let_def split: sum.splits prod.splits option.splits
      dest: rereduce_groups_all_groups)

text \<open>
  The two query paths of the later code keep to the shape of claim C7: with a reduce
  function in use, a successful answer of \<^verbatim>\<open>queryIndexInner\<close> and of the
  \<^verbatim>\<open>viewQuery\<close> of line 853 has neither \<^verbatim>\<open>total_rows\<close> nor \<^verbatim>\<open>offset\<close>, and its
  rows are \<^verbatim>\<open>{key, value}\<close> pairs.
\<close>

lemma queryIndexInner_reduce_shape:
  assumes "has_reduce (reduceFun ix)" and "reduce q \<noteq> Some (JBool False)"
    and "queryIndexInner e flt src ix st q = Inr res"
  shows "total_rows res = None \<and> offset res = None \<and> (\<forall>x\<in>set (rows res). \<exists>k v. x = Group k v)"
  using assms
  by (auto simp: queryIndexInner_def onMapResultsReady_def Let_def
      split: sum.splits prod.splits option.splits if_splits dest!: reduceIndex_shape)

lemma viewQuery_reduce_shape:
  assumes "has_reduce (reduce_src f)" and "reduce q \<noteq> Some (JBool False)"
    and "viewQuery e src f q = Inr res"
  shows "total_rows res = None \<and> offset res = None \<and> (\<forall>x\<in>set (rows res). \<exists>k v. x = Group k v)"
  using assms set_slice
  by (fastforce simp: viewQuery_def Let_def
      split: sum.splits prod.splits option.splits if_splits dest: reduce_groups_all_groups)

lemma ex_view_emits:
  "view_emits ex_env (ex_view r) (src_changes (ex_source [ex_change ''a'' 1 (JNum (Fin 1))]) 0)
   = [(ex_change ''a'' 1 (JNum (Fin 1)), (JStr ''a'', JNum (Fin 1)))]"
  by (simp add: view_emits_def mapped_def ex_source_def ex_change_def ex_env_def
      underscore_id_def get_field_def)

lemma ex_view_sorted:
  "view_sorted ex_env (ex_source [ex_change ''a'' 1 (JNum (Fin 1))]) (ex_view r) ex_opts
   = Inr [ex_row ''a'' (JNum (Fin 1)) None]"
proof -
  have "view_results ex_env (ex_source [ex_change ''a'' 1 (JNum (Fin 1))]) (ex_view r) ex_opts
          = [ex_row ''a'' (JNum (Fin 1)) None]"
    unfolding view_results_def ex_view_emits
    by (simp add: emit_view_def ex_opts_fields ex_env_def ex_change_def ex_row_def)
  then show ?thesis
    unfolding view_sorted_def by (simp add: ex_opts_fields sort_by_def)
qed

lemma ex_sum_one: "reduceFun_of ex_env ''_sum'' ks [JNum (Fin 1)] rr = JNum (Fin 1)"
  by (simp add: reduceFun_of_def builtInReduce_def builtin_sum_def sum_js_def js_add_def
      stringish_def to_number_def)

text \<open>
  Claim C7 fails on the \<^verbatim>\<open>viewQuery\<close> of line 167, whose \<^verbatim>\<open>checkComplete\<close> (lines
  307 to 317) is one of the code places of the claim. The source holds the one document
  \<^verbatim>\<open>{_id: "a", n: 1}\<close>, the view maps it with \<^verbatim>\<open>emit(doc._id, doc.n)\<close> and reduces
  with \<^verbatim>\<open>_sum\<close>, and the query has no options: the reduced answer carries
  \<^verbatim>\<open>total_rows\<close> and \<^verbatim>\<open>offset\<close>.
\<close>

theorem viewQuery_167_reduce_total_rows:
  "viewQuery_167 ex_env (ex_source [ex_change ''a'' 1 (JNum (Fin 1))]) (ex_view (Some ''_sum'')) ex_opts
   = Inr \<lparr>total_rows = Some 1, offset = Some 0, rows = [Group (JStr ''a'') (JNum (Fin 1))]\<rparr>"
  unfolding viewQuery_167_def
  by (simp add: has_reduce_def Let_def ex_view_sorted ex_view_emits ex_opts_fields inverted_range_def
      add_to_groups_def first_key_def ex_row_def ex_sum_one is_error_instance_def get_field_def
      slice_def
      ex_view_fields)

lemma ex_viewQuery:
  "viewQuery ex_env (ex_source [ex_change ''a'' 1 (JNum (Fin 1))]) (ex_view (Some ''_sum'')) ex_opts
   = Inr \<lparr>total_rows = None, offset = None, rows = [Group JNull (JNum (Fin 1))]\<rparr>"
  unfolding viewQuery_def
  by (simp add: has_reduce_def Let_def ex_view_sorted ex_view_emits ex_opts_fields
      add_to_groups_def first_key_def ex_row_def ex_sum_one is_error_instance_def get_field_def
      slice_def
      ex_view_fields)

subsection \<open>The empty list of keys\<close>

lemma reduceIndex_limit_0:
  "limit q = Limit 0 \<Longrightarrow> reduceIndex e ix rs q = Inr res \<Longrightarrow>
     res = \<lparr>total_rows = None, offset = None, rows = []\<rparr>"
  by (auto simp: reduceIndex_def slice_def Let_def split: sum.splits prod.splits option.splits)

lemma allDocs_limit_0: "ix_limit io = Some 0 \<Longrightarrow> allDocs st io = (length (live st), [])"
  by (simp add: allDocs_def Let_def)

lemma normal_indexOpts_limit:
  "ix_limit (normal_indexOpts e sr q) =
     (if sr then None else case limit q of Limit n \<Rightarrow> Some n | _ \<Rightarrow> None)"
  by (simp add: normal_indexOpts_def Let_def split: option.splits)

text \<open>
  Claim C9, as amended. A query on a persisted view with \<^verbatim>\<open>keys: []\<close> is run as the
  query without \<^verbatim>\<open>keys\<close> and with \<^verbatim>\<open>limit: 0\<close>. When no reduction is in effect the
  scan is handed the limit \<open>0\<close> and, unless the scan fails, the answer has no rows. When a
  reduction is in effect the scan is handed no limit: all rows of the range are reduced,
  the query fails when the reduction does, and otherwise the answer has no rows.
\<close>

theorem empty_keys_query:
  assumes "keys q = Some []"
  shows "(let sr = (has_reduce (reduceFun ix) \<and> reduce q \<noteq> Some (JBool False));
              q' = q\<lparr>limit := Limit 0, keys := None\<rparr>;
              io = normal_indexOpts e sr q'
          in ix_limit io = (if sr then None else Some 0)
           \<and> queryIndexInner e flt src ix st q =
               (case io_error flt (Scan io) of
                  Some err \<Rightarrow> Inl (Failed err)
                | None \<Rightarrow>
                    if sr then
                      (case reduceIndex e ix (map (\<lambda>(i, d). kv_value d) (snd (allDocs st io))) q' of
                         Inl f \<Rightarrow> Inl f
                       | Inr res \<Rightarrow> Inr \<lparr>total_rows = None, offset = None, rows = []\<rparr>)
                    else Inr \<lparr>total_rows = Some (length (live st)), offset = Some (skip q), rows = []\<rparr>))"
proof -
  define sr where "sr = (has_reduce (reduceFun ix) \<and> reduce q \<noteq> Some (JBool False))"
  define q' where "q' = q\<lparr>limit := Limit 0, keys := None\<rparr>"
  define io where "io = normal_indexOpts e sr q'"
  have lim: "ix_limit io = (if sr then None else Some 0)"
    by (simp add: io_def q'_def normal_indexOpts_limit)
  have run: "queryIndexInner e flt src ix st q =
      (case fetchFromIndex flt st io of
         Inl f \<Rightarrow> Inl f
       | Inr (totalRows, results) \<Rightarrow> onMapResultsReady e src ix q' sr totalRows results)"
    unfolding sr_def q'_def io_def using assms by (simp add: queryIndexInner_def Let_def)
  have "queryIndexInner e flt src ix st q =
      (case io_error flt (Scan io) of
         Some err \<Rightarrow> Inl (Failed err)
       | None \<Rightarrow>
           if sr then
             (case reduceIndex e ix (map (\<lambda>(i, d). kv_value d) (snd (allDocs st io))) q' of
                Inl f \<Rightarrow> Inl f
              | Inr res \<Rightarrow> Inr \<lparr>total_rows = None, offset = None, rows = []\<rparr>)
           else Inr \<lparr>total_rows = Some (length (live st)), offset = Some (skip q), rows = []\<rparr>)"
  proof (cases "io_error flt (Scan io)")
    case (Some err)
    then show ?thesis unfolding run by (simp add: fetchFromIndex_def)
  next
    case None
    show ?thesis
    proof (cases sr)
      case True
      have "limit q' = Limit 0" by (simp add: q'_def)
      from reduceIndex_limit_0 [OF this]
      show ?thesis unfolding run using None True
        by (auto simp: fetchFromIndex_def onMapResultsReady_def split: sum.splits)
    next
      case False
      with lim have "ix_limit io = Some 0" by simp
      from allDocs_limit_0 [OF this, of st]
      show ?thesis unfolding run using None False
        by (simp add: fetchFromIndex_def onMapResultsReady_def q'_def)
    qed
  qed
  then show ?thesis
    unfolding Let_def using lim unfolding sr_def q'_def io_def by (intro conjI)
qed

theorem empty_keys_query_witness:
  "keys (ex_opts\<lparr>keys := Some []\<rparr>) = Some []
   \<and> queryIndexInner ex_env (\<lambda>op. None) (ex_source []) (ex_index None 1) (ex_written 1)
       (ex_opts\<lparr>keys := Some []\<rparr>)
     = Inr \<lparr>total_rows = Some 1, offset = Some 0, rows = []\<rparr>"
proof -
  have k: "keys (ex_opts\<lparr>keys := Some []\<rparr>) = Some []" by simp
  have l: "length (live (ex_written 1)) = 1" by (simp add: live_def ex_written_def)
  from empty_keys_query [OF k, of "ex_index None 1" ex_env "\<lambda>op. None" "ex_source []" "ex_written 1"]
  show ?thesis
    by (simp add: Let_def ex_index_fields has_reduce_def io_error_def l ex_opts_fields)
qed

lemma ex_bad_output_error:
  "is_reduce_error ex_bad_output" "ex_bad_output \<noteq> JNull" "ex_bad_output \<noteq> JUndefined"
  by (simp_all add: ex_bad_output_def builtin_stats_def truthy_def is_reduce_error_def get_field_def
      sumsqr_def invalid_value_def)

text \<open>
  Claim C9, as stated, fails when a reduction is in effect and fails itself. The index
  reduces with \<^verbatim>\<open>_stats\<close> and holds the row of \<^verbatim>\<open>emit("a", "x")\<close>, whose stored
  \<^verbatim>\<open>reduceOutput\<close> carries the error of \<^verbatim>\<open>_stats\<close> on a value that is no number. The
  scan has no limit and returns the row, and the query with \<^verbatim>\<open>keys: []\<close> ends in that
  error.
\<close>

theorem empty_keys_reduce_counterexample:
  "ix_limit (normal_indexOpts ex_env True (ex_opts\<lparr>keys := Some [], limit := Limit 0, keys := None\<rparr>)) = None
   \<and> length (snd (allDocs ex_stats_store
        (normal_indexOpts ex_env True (ex_opts\<lparr>keys := Some [], limit := Limit 0, keys := None\<rparr>)))) = 1
   \<and> queryIndexInner ex_env (\<lambda>op. None) (ex_source []) (ex_index (Some ''_stats'') 1) ex_stats_store
       (ex_opts\<lparr>keys := Some []\<rparr>)
     = Inl (Failed ex_bad_output)"
  unfolding queryIndexInner_def
  by (simp add: has_reduce_def Let_def ex_opts_fields ex_index_def normal_indexOpts_def
      fetchFromIndex_def io_error_def allDocs_def live_def in_range_def onMapResultsReady_def
      reduceIndex_def add_to_groups_def stored_output_def ex_row_def ex_bad_output_error
      ex_stats_store_def)

subsection \<open>Rows without a reduction\<close>

lemma attach_doc_reduceOutput: "reduceOutput (attach_doc src r) = reduceOutput r"
  by (simp add: attach_doc_def split: sum.splits)

lemma onMapResultsReady_no_reduceOutput:
  "onMapResultsReady e src ix q False n results = Inr res \<Longrightarrow>
     \<forall>x\<in>set (rows res). \<exists>r. x = Row r \<and> reduceOutput r = None"
  by (auto simp: onMapResultsReady_def Let_def attach_doc_reduceOutput split: if_splits)

text \<open>
  Claim C10. When no reduction is in effect (the index has no reduce function, or the query
  says \<^verbatim>\<open>reduce: false\<close>), every entry of the rows of a successful query on a persisted
  view is a row without \<^verbatim>\<open>reduceOutput\<close>, whatever the stored records carry.
\<close>

theorem queryIndexInner_no_reduceOutput:
  assumes "\<not> (has_reduce (reduceFun ix) \<and> reduce q \<noteq> Some (JBool False))"
    and "queryIndexInner e flt src ix st q = Inr res"
  shows "\<forall>x\<in>set (rows res). \<exists>r. x = Row r \<and> reduceOutput r = None"
  using assms
  by (auto simp: queryIndexInner_def Let_def
      split: sum.splits prod.splits option.splits if_splits dest!: onMapResultsReady_no_reduceOutput)

lemma ex_query_reduce_false:
  "queryIndexInner ex_env (\<lambda>op. None) (ex_source []) (ex_index (Some ''_sum'') 1) ex_sum_store
      (ex_opts\<lparr>reduce := Some (JBool False)\<rparr>)
   = Inr \<lparr>total_rows = Some 1, offset = Some 0, rows = [Row (ex_row ''a'' (JNum (Fin 1)) None)]\<rparr>"
  unfolding queryIndexInner_def
  by (simp add: has_reduce_def Let_def ex_opts_fields ex_index_def normal_indexOpts_def
      fetchFromIndex_def io_error_def allDocs_def live_def in_range_def onMapResultsReady_def
      ex_row_def ex_sum_store_def)

theorem queryIndexInner_no_reduceOutput_witness:
  "reduceOutput (kv_value (snd (hd (kvs ex_sum_store)))) = Some (JNum (Fin 1))
   \<and> queryIndexInner ex_env (\<lambda>op. None) (ex_source []) (ex_index (Some ''_sum'') 1) ex_sum_store
        (ex_opts\<lparr>reduce := Some (JBool False)\<rparr>)
     = Inr \<lparr>total_rows = Some 1, offset = Some 0, rows = [Row (ex_row ''a'' (JNum (Fin 1)) None)]\<rparr>
   \<and> reduceOutput (ex_row ''a'' (JNum (Fin 1)) None) = None"
proof -
  have h: "\<not> (has_reduce (reduceFun (ex_index (Some ''_sum'') 1))
              \<and> reduce (ex_opts\<lparr>reduce := Some (JBool False)\<rparr>) \<noteq> Some (JBool False))"
    by simp
  from queryIndexInner_no_reduceOutput [OF h ex_query_reduce_false]
  have "reduceOutput (ex_row ''a'' (JNum (Fin 1)) None) = None" by simp
  then show ?thesis
    using ex_query_reduce_false by (simp add: ex_sum_store_def ex_row_def)
qed

section \<open>Properties of the updater\<close>

subsection \<open>The records of one document\<close>

lemma map_of_table_put: "map_of (table_put k v t) = (map_of t)(k \<mapsto> v)"
  by (induction t) (auto simp: fun_eq_iff)

lemma fst_set_table_put: "fst ` set (table_put k v t) = insert k (fst ` set t)"
  by (simp add: dom_map_of_conv_image_fst [symmetric] map_of_table_put)

lemma table_put_all:
  "\<forall>(k', r')\<in>set t. P r' \<Longrightarrow> P v \<Longrightarrow> \<forall>(k', r')\<in>set (table_put k v t). P r'"
  by (induction t) (auto split: if_splits)

lemma emit_all_keys:
  "fst ` set (emit_all e docId i es tbl) =
     fst ` set tbl \<union> {indexableStringKey e docId (fst (es ! j)) (snd (es ! j)) (i + j) | j. j < length es}"
proof (induction es arbitrary: i tbl)
  case Nil
  then show ?case by simp
next
  case (Cons x es)
  obtain k v where x: "x = (k, v)" by (cases x)
  have "{indexableStringKey e docId (fst ((x # es) ! j)) (snd ((x # es) ! j)) (i + j) | j. j < length (x # es)}
        = insert (indexableStringKey e docId k v i)
            {indexableStringKey e docId (fst (es ! j)) (snd (es ! j)) (Suc i + j) | j. j < length es}"
    (is "?L = ?R")
  proof
    show "?L \<subseteq> ?R"
    proof
      fix y assume "y \<in> ?L"
      then obtain j where j: "j < length (x # es)"
        "y = indexableStringKey e docId (fst ((x # es) ! j)) (snd ((x # es) ! j)) (i + j)" by blast
      show "y \<in> ?R"
      proof (cases j)
        case 0
        with j x show ?thesis by simp
      next
        case (Suc j')
        with j have "j' < length es"
          "y = indexableStringKey e docId (fst (es ! j')) (snd (es ! j')) (Suc i + j')"
          by simp_all
        then show ?thesis by blast
      qed
    qed
    show "?R \<subseteq> ?L"
    proof
      fix y assume "y \<in> ?R"
      then consider "y = indexableStringKey e docId k v i"
        | j where "j < length es"
            "y = indexableStringKey e docId (fst (es ! j)) (snd (es ! j)) (Suc i + j)"
        by blast
      then show "y \<in> ?L"
      proof cases
        case 1
        have "0 < length (x # es)" by simp
        moreover have "y = indexableStringKey e docId (fst ((x # es) ! 0)) (snd ((x # es) ! 0)) (i + 0)"
          using 1 x by simp
        ultimately show ?thesis by blast
      next
        case 2
        have "Suc j < length (x # es)" using 2 by simp
        moreover have "y = indexableStringKey e docId (fst ((x # es) ! Suc j))
                             (snd ((x # es) ! Suc j)) (i + Suc j)"
          using 2 by simp
        ultimately show ?thesis by blast
      qed
    qed
  qed
  then show ?case using Cons.IH [of "Suc i"] x by (simp add: fst_set_table_put)
qed

lemma emit_all_row_id:
  "\<forall>(k, r)\<in>set tbl. row_id r = docId \<Longrightarrow> \<forall>(k, r)\<in>set (emit_all e docId i es tbl). row_id r = docId"
proof (induction es arbitrary: i tbl)
  case Nil
  then show ?case by simp
next
  case (Cons x es)
  obtain k v where x: "x = (k, v)" by (cases x)
  show ?case unfolding x emit_all.simps
    by (rule Cons.IH, rule table_put_all [OF Cons.prems]) simp
qed

lemma table_keys:
  assumes "es = evalMap e (mapFun ix) (ch_doc c)" and "\<not> ch_deleted c"
  shows "fst ` set (indexableKeysToKeyValues e ix c) =
     {indexableStringKey e (ch_id c) (fst (es ! j)) (snd (es ! j)) j | j. j < length es}"
  using emit_all_keys [of e "ch_id c" 0 es "[]"] assms
  by (auto simp: indexableKeysToKeyValues_def Let_def image_image split_def split: option.splits)

lemma table_row_id:
  "(k, r) \<in> set (indexableKeysToKeyValues e ix c) \<Longrightarrow> row_id r = ch_id c"
  using emit_all_row_id [of "[]" "ch_id c" e 0 "evalMap e (mapFun ix) (ch_doc c)"]
  by (auto simp: indexableKeysToKeyValues_def Let_def split: option.splits if_splits)

lemma foldl_write_frame:
  "\<forall>d. KV i d \<notin> set ds \<Longrightarrow> map_of (kvs (foldl write_doc st ds)) i = map_of (kvs st) i"
proof (induction ds arbitrary: st)
  case Nil
  then show ?case by simp
next
  case (Cons x ds)
  then show ?case by (cases x) (auto simp: map_of_table_put)
qed

lemma foldl_write_kv:
  "\<forall>d. KV i d \<in> set ds \<longrightarrow> P d \<Longrightarrow> \<exists>d. KV i d \<in> set ds \<Longrightarrow>
   \<exists>d. map_of (kvs (foldl write_doc st ds)) i = Some d \<and> P d"
proof (induction ds arbitrary: st)
  case Nil
  then show ?case by simp
next
  case (Cons x ds)
  show ?case
  proof (cases "\<exists>d. KV i d \<in> set ds")
    case True
    with Cons.IH [of "write_doc st x"] Cons.prems(1) show ?thesis by simp
  next
    case False
    with Cons.prems(2) obtain d where x: "x = KV i d" by auto
    with Cons.prems(1) have "P d" by simp
    moreover have "map_of (kvs (foldl write_doc (write_doc st x) ds)) i = Some d"
      using False foldl_write_frame [of i ds "write_doc st x"] x by (simp add: map_of_table_put)
    ultimately show ?thesis by simp
  qed
qed

lemma batch_live:
  assumes "i \<in> fst ` set tbl" and "\<forall>(k, r)\<in>set tbl. row_id r = docId"
  shows "(\<exists>d. KV i d \<in> set (batch_of tbl docId mk old s))
       \<and> (\<forall>d. KV i d \<in> set (batch_of tbl docId mk old s) \<longrightarrow> \<not> kv_deleted d \<and> row_id (kv_value d) = docId)"
proof -
  from assms(1) obtain r where r: "map_of tbl i = Some r"
    by (metis domD dom_map_of_conv_image_fst)
  have rid: "\<And>r'. map_of tbl i = Some r' \<Longrightarrow> row_id r' = docId"
    using assms(2) by (auto dest!: map_of_SomeD)
  have ex: "\<exists>d. KV i d \<in> set (batch_of tbl docId mk old s)"
  proof (cases "i \<in> fst ` set old")
    case True
    then obtain d where "(i, d) \<in> set old" by auto
    then have "KV i (d\<lparr>kv_deleted := False, kv_value := r\<rparr>) \<in> set (batch_of tbl docId mk old s)"
      using r by (force simp: batch_of_def Let_def)
    then show ?thesis by blast
  next
    case False
    from r have "(i, r) \<in> set tbl" by (rule map_of_SomeD)
    with False have "KV i \<lparr>kv_value = r, kv_deleted = False\<rparr> \<in> set (batch_of tbl docId mk old s)"
      by (force simp: batch_of_def Let_def)
    then show ?thesis by blast
  qed
  have "\<forall>d. KV i d \<in> set (batch_of tbl docId mk old s) \<longrightarrow> \<not> kv_deleted d \<and> row_id (kv_value d) = docId"
    using r rid assms(2) by (auto simp: batch_of_def Let_def split: option.splits)
  with ex show ?thesis by blast
qed

lemma callMapFun_written:
  assumes "callMapFun e flt ix st c = Inr st'"
  shows "\<exists>mk. st' = bulkDocs st
           (batch_of (indexableKeysToKeyValues e ix c) (ch_id c) mk (fetch_old st mk) (ch_seq c))"
  using assms by (auto simp: callMapFun_def Let_def split: option.splits)

text \<open>
  The updater of line 1111 keeps to claim C1. When its \<^verbatim>\<open>callMapFun\<close> has written the
  batch of a document that is not deleted, then for the \<open>i\<close>-th call
  \<^verbatim>\<open>emit(k, v)\<close> of the map function on that document, counted from \<open>0\<close>, the store
  holds a key/value record that is not deleted, is a row of that document and has the
  \<^verbatim>\<open>_id\<close> \<^verbatim>\<open>toIndexableString([k, docId, v, i])\<close>.
\<close>

lemma callMapFun_composite_ids:
  assumes "callMapFun e flt ix st c = Inr st'"
    and "\<not> ch_deleted c"
    and "i < length (evalMap e (mapFun ix) (ch_doc c))"
    and "evalMap e (mapFun ix) (ch_doc c) ! i = (k, v)"
  shows "\<exists>d. map_of (kvs st') (toIndexableString e (JArr [k, JStr (ch_id c), v, JNum (Fin (int i))])) = Some d
             \<and> \<not> kv_deleted d \<and> row_id (kv_value d) = ch_id c"
proof -
  let ?tbl = "indexableKeysToKeyValues e ix c"
  let ?id = "toIndexableString e (JArr [k, JStr (ch_id c), v, JNum (Fin (int i))])"
  from callMapFun_written [OF assms(1)] obtain mk where
    st': "st' = bulkDocs st (batch_of ?tbl (ch_id c) mk (fetch_old st mk) (ch_seq c))" by blast
  have "?id \<in> fst ` set ?tbl"
    using table_keys [OF refl assms(2), of e ix] assms(3,4)
    by (auto simp: indexableStringKey_def intro!: exI [of _ i])
  moreover have "\<forall>(k, r)\<in>set ?tbl. row_id r = ch_id c"
    using table_row_id by blast
  ultimately have b: "(\<exists>d. KV ?id d \<in> set (batch_of ?tbl (ch_id c) mk (fetch_old st mk) (ch_seq c)))
       \<and> (\<forall>d. KV ?id d \<in> set (batch_of ?tbl (ch_id c) mk (fetch_old st mk) (ch_seq c))
              \<longrightarrow> \<not> kv_deleted d \<and> row_id (kv_value d) = ch_id c)"
    by (rule batch_live)
  show ?thesis unfolding st' bulkDocs_def
    using foldl_write_kv [where P = "\<lambda>d. \<not> kv_deleted d \<and> row_id (kv_value d) = ch_id c"] b by blast
qed

lemma ex_callMapFun:
  "s \<noteq> 7 \<Longrightarrow>
   callMapFun ex_env ex_fault (ex_index None s0) (ex_store s0) (ex_change ''a'' s (JNum (Fin 1)))
   = Inr (ex_written s)"
  by (simp add: callMapFun_def ex_env_def ex_index_def ex_store_def ex_change_def ex_row_def ex_fault_def
      ex_written_def get_error_def get_missing_def io_error_def indexableKeysToKeyValues_def
      indexableStringKey_def get_field_def batch_of_def fetch_old_def bulkDocs_def
      string_of_int_def string_of_nat.simps digit_def split: option.splits)

lemma ex_callMapFun_composite_id:
  "callMapFun ex_env ex_fault (ex_index None 5) (ex_store 5) (ex_change ''a'' 6 (JNum (Fin 1)))
     = Inr (ex_written 6)
   \<and> evalMap ex_env (mapFun (ex_index None 5)) (ch_doc (ex_change ''a'' 6 (JNum (Fin 1)))) ! 0
     = (JStr ''a'', JNum (Fin 1))
   \<and> toIndexableString ex_env (JArr [JStr ''a'', JStr ''a'', JNum (Fin 1), JNum (Fin 0)]) = ''a,a,1,0''
   \<and> (\<exists>d. map_of (kvs (ex_written 6)) ''a,a,1,0'' = Some d \<and> \<not> kv_deleted d \<and> row_id (kv_value d) = ''a'')"
proof -
  have run: "callMapFun ex_env ex_fault (ex_index None 5) (ex_store 5) (ex_change ''a'' 6 (JNum (Fin 1)))
     = Inr (ex_written 6)"
    by (rule ex_callMapFun) simp
  have live: "\<not> ch_deleted (ex_change ''a'' 6 (JNum (Fin 1)))" by (simp add: ex_change_def)
  have len: "0 < length (evalMap ex_env (mapFun (ex_index None 5)) (ch_doc (ex_change ''a'' 6 (JNum (Fin 1)))))"
    by (simp add: ex_env_def)
  have nth: "evalMap ex_env (mapFun (ex_index None 5)) (ch_doc (ex_change ''a'' 6 (JNum (Fin 1)))) ! 0
     = (JStr ''a'', JNum (Fin 1))"
    by (simp add: ex_env_def ex_change_def get_field_def)
  have enc: "toIndexableString ex_env (JArr [JStr ''a'', JStr ''a'', JNum (Fin 1), JNum (Fin 0)]) = ''a,a,1,0''"
    by (simp add: ex_env_def string_of_int_def string_of_nat.simps digit_def)
  from callMapFun_composite_ids [OF run live len nth]
  have "\<exists>d. map_of (kvs (ex_written 6)) ''a,a,1,0'' = Some d \<and> \<not> kv_deleted d \<and> row_id (kv_value d) = ''a''"
    using enc by (simp add: ex_change_def)
  with run nth enc show ?thesis by simp
qed


subsection \<open>The variables of a run\<close>

lemma checkComplete_fields [simp]:
  "r_store (checkComplete r) = r_store r" "queue (checkComplete r) = queue r"
  "feed (checkComplete r) = feed r" "gotError (checkComplete r) = gotError r"
  by (auto simp: checkComplete_def split: option.splits)








lemma ex_thrown: "thrown ex_env ix c = None"
  by (simp add: thrown_def ex_env_fields)



subsection \<open>Changes that are already indexed\<close>




subsection \<open>Failed runs\<close>

lemma store_error_truthy: "store_error flt c = Some err \<Longrightarrow> truthy err"
  by (auto simp: store_error_def get_error_def io_error_def split: option.splits if_splits)














lemma ex_feed:
  "src_changes (ex_source [ex_change ''a'' 6 (JNum (Fin 1)), ex_change ''b'' 7 (JNum (Fin 2))]) 5
     = [ex_change ''a'' 6 (JNum (Fin 1)), ex_change ''b'' 7 (JNum (Fin 2))]"
  by (simp add: ex_source_def ex_change_def)







text \<open>
  After a failure the queue goes on with the tasks that wait: neither \<^verbatim>\<open>processChange\<close>
  nor \<^verbatim>\<open>onChange\<close> looks at \<^verbatim>\<open>gotError\<close>, as the \<^verbatim>\<open>onChange\<close> of the earlier
  updater does (line 486). A change that follows the failed one is then indexed and takes
  \<^verbatim>\<open>_local/lastSeq\<close> past it. Here the store refuses the batch of change \<open>6\<close>; change
  \<open>7\<close> is written, the record stands at \<open>7\<close>, and the store has no row of the document
  of change \<open>6\<close>.
\<close>

lemma ex_run_past_failure:
  "gotError (updateIndexInner ex_env ex_fault_6
      (ex_source [ex_change ''a'' 6 (JNum (Fin 1)), ex_change ''b'' 7 (JNum (Fin 2))])
      (ex_index None 5) (ex_store 5) [OnChange, OnChange, Complete, RunTask, RunTask])
     = Some (JStr ''disk full'')
   \<and> r_store (updateIndexInner ex_env ex_fault_6
      (ex_source [ex_change ''a'' 6 (JNum (Fin 1)), ex_change ''b'' 7 (JNum (Fin 2))])
      (ex_index None 5) (ex_store 5) [OnChange, OnChange, Complete, RunTask, RunTask])
     = \<lparr>kvs = [(''b,b,2,0'', \<lparr>kv_value = ex_row ''b'' (JNum (Fin 2)) None, kv_deleted = False\<rparr>)],
        metas = [(''b'', [''b,b,2,0''])], lastSeqDoc = Some 7\<rparr>"
proof -
  have a: "callMapFun ex_env ex_fault_6 (ex_index None 5) (ex_store 5) (ex_change ''a'' 6 (JNum (Fin 1)))
     = Inl (JStr ''disk full'')"
    by (simp add: callMapFun_def ex_change_def ex_fault_6_def truthy_def
        get_error_def get_missing_def io_error_def Let_def)
  have b: "callMapFun ex_env ex_fault_6 (ex_index None 5) (ex_store 5) (ex_change ''b'' 7 (JNum (Fin 2)))
     = Inr \<lparr>kvs = [(''b,b,2,0'', \<lparr>kv_value = ex_row ''b'' (JNum (Fin 2)) None, kv_deleted = False\<rparr>)],
        metas = [(''b'', [''b,b,2,0''])], lastSeqDoc = Some 7\<rparr>"
    by (simp add: callMapFun_def ex_env_def ex_index_def ex_store_def ex_change_def ex_row_def ex_fault_6_def
        get_error_def get_missing_def io_error_def indexableKeysToKeyValues_def
        indexableStringKey_def get_field_def batch_of_def fetch_old_def bulkDocs_def
        string_of_int_def string_of_nat.simps digit_def)
  show ?thesis
    by (simp add: updateIndexInner_def start_def ex_feed ex_index_fields ex_change_fields underscore_id_def
        processChange_def checkComplete_def a b ex_thrown)
qed
end
